theory Spec2Isabelle
  imports Main
begin

section \<open>Strings\<close>

text \<open>
  A Go string is a sequence of bytes; it is modelled as a \<open>char list\<close>. The functions of
  the Go package \<open>strings\<close> that \<open>goproxy.go\<close> calls are written out below with the
  argument order of the Go functions.
\<close>

definition HasPrefix :: "string \<Rightarrow> string \<Rightarrow> bool" where
  "HasPrefix s p = (take (length p) s = p)"

definition TrimPrefix :: "string \<Rightarrow> string \<Rightarrow> string" where
  "TrimPrefix s p = (if HasPrefix s p then drop (length p) s else s)"

definition HasSuffix :: "string \<Rightarrow> string \<Rightarrow> bool" where
  "HasSuffix s p = (length p \<le> length s \<and> drop (length s - length p) s = p)"

definition TrimSuffix :: "string \<Rightarrow> string \<Rightarrow> string" where
  "TrimSuffix s p = (if HasSuffix s p then take (length s - length p) s else s)"

text \<open>\<open>strings.TrimLeft(s, "/")\<close>: the only cutset used is the single slash.\<close>

definition TrimLeftSlash :: "string \<Rightarrow> string" where
  "TrimLeftSlash s = dropWhile (\<lambda>c. c = CHR ''/'') s"

text \<open>\<open>strings.Contains\<close>: some suffix of \<open>s\<close> starts with \<open>sub\<close>.\<close>

primrec Contains :: "string \<Rightarrow> string \<Rightarrow> bool" where
  "Contains [] sub = (sub = [])"
| "Contains (c # cs) sub = (HasPrefix (c # cs) sub \<or> Contains cs sub)"

definition ContainsAny :: "string \<Rightarrow> string \<Rightarrow> bool" where
  "ContainsAny s chars = list_ex (\<lambda>c. c \<in> set chars) s"

text \<open>\<open>strings.Index(s, ",")\<close> for a one-byte separator; \<open>None\<close> is Go's \<open>-1\<close>.\<close>

primrec IndexByte :: "string \<Rightarrow> char \<Rightarrow> nat option" where
  "IndexByte [] c = None"
| "IndexByte (x # xs) c =
     (if x = c then Some 0 else map_option Suc (IndexByte xs c))"

definition Count :: "string \<Rightarrow> char \<Rightarrow> nat" where
  "Count s c = length (filter (\<lambda>x. x = c) s)"

text \<open>
  \<open>strings.Split(s, sep)\<close> for a non-empty separator (the handler only splits on
  \<open>","\<close> and \<open>"/@v/"\<close>): the pieces between the leftmost non-overlapping
  occurrences of \<open>sep\<close>.
\<close>

function Split :: "string \<Rightarrow> string \<Rightarrow> string list" where
  "Split [] sep = [[]]"
| "Split (c # cs) sep =
     (if sep \<noteq> [] \<and> HasPrefix (c # cs) sep
      then [] # Split (drop (length sep) (c # cs)) sep
      else (case Split cs sep of
              [] \<Rightarrow> [[c]]
            | x # xs \<Rightarrow> (c # x) # xs))"
  by pat_completeness auto
termination
  by (relation "measure (\<lambda>(s, sep). length s)") (auto simp: neq_Nil_conv)

text \<open>\<open>strings.SplitN(s, "=", 2)\<close>: cut at the first separator byte, if there is one.\<close>

definition SplitN2 :: "string \<Rightarrow> char \<Rightarrow> string list" where
  "SplitN2 s c =
     (case IndexByte s c of
        None \<Rightarrow> [s]
      | Some i \<Rightarrow> [take i s, drop (Suc i) s])"

fun Join :: "string list \<Rightarrow> string \<Rightarrow> string" where
  "Join [] sep = []"
| "Join [x] sep = x"
| "Join (x # y # ys) sep = x @ sep @ Join (y # ys) sep"

text \<open>\<open>strconv.Itoa\<close> of a number that is not negative: its decimal digits.\<close>

function Itoa :: "nat \<Rightarrow> string" where
  "Itoa n =
     (if n < 10 then [''0123456789'' ! n]
      else Itoa (n div 10) @ [''0123456789'' ! (n mod 10)])"
  by pat_completeness auto
termination
  by (relation "measure (\<lambda>n. n)") auto

declare Itoa.simps [simp del]

text \<open>\<open>stringSliceContains\<close> (goproxy.go, lines 953-961).\<close>

primrec stringSliceContains :: "string list \<Rightarrow> string \<Rightarrow> bool" where
  "stringSliceContains [] s = False"
| "stringSliceContains (v # ss) s = (if v = s then True else stringSliceContains ss s)"

section \<open>Regular expressions\<close>

text \<open>
  The part of Go's \<open>regexp\<close> syntax that the pattern of \<open>regModuleVersionNotFound\<close>
  uses: literal characters, \<open>.\<close> (any character but a newline), \<open>*\<close>, grouping,
  alternation with \<open>|\<close>, and the anchor \<open>^\<close> (beginning of the text; the pattern sets
  no flags). A group only matters for submatch reporting, which \<open>MatchString\<close> does not
  use, so the parser keeps the regexp inside the parentheses.
\<close>

datatype regexp =
    NoMatch
  | EmptyMatch
  | Literal char
  | AnyCharNotNL
  | BeginText
  | Concat regexp regexp
  | Alternate regexp regexp
  | Star regexp

fun concatOf :: "regexp list \<Rightarrow> regexp" where
  "concatOf [] = EmptyMatch"
| "concatOf [r] = r"
| "concatOf (r # rs) = Concat r (concatOf rs)"

fun alternateOf :: "regexp list \<Rightarrow> regexp" where
  "alternateOf [] = NoMatch"
| "alternateOf [r] = r"
| "alternateOf (r # rs) = Alternate r (alternateOf rs)"

text \<open>
  The parser works as the one of \<open>regexp/syntax\<close> does, on a stack. A frame holds the
  alternatives already closed by a \<open>|\<close> and the factors of the concatenation being
  read, both latest first. An empty concatenation is the regexp of the empty string: this
  is what \<open>|\<close> leaves on either side when nothing stands there.
\<close>

type_synonym frame = "regexp list \<times> regexp list"

definition closeFrame :: "frame \<Rightarrow> regexp" where
  "closeFrame f = alternateOf (rev (concatOf (rev (snd f)) # fst f))"

fun parseRegexp :: "string \<Rightarrow> frame list \<Rightarrow> regexp option" where
  "parseRegexp [] [f] = Some (closeFrame f)"
| "parseRegexp [] fs = None"
| "parseRegexp (c # cs) [] = None"
| "parseRegexp (c # cs) ((alts, cur) # fs) =
     (if c = CHR ''('' then parseRegexp cs (([], []) # (alts, cur) # fs)
      else if c = CHR '')'' then
        (case fs of
           [] \<Rightarrow> None
         | (alts', cur') # fs' \<Rightarrow>
             parseRegexp cs ((alts', closeFrame (alts, cur) # cur') # fs'))
      else if c = CHR ''|'' then parseRegexp cs ((concatOf (rev cur) # alts, []) # fs)
      else if c = CHR ''*'' then
        (case cur of
           [] \<Rightarrow> None
         | r # rs \<Rightarrow> parseRegexp cs ((alts, Star r # rs) # fs))
      else if c = CHR ''.'' then parseRegexp cs ((alts, AnyCharNotNL # cur) # fs)
      else if c = CHR ''^'' then parseRegexp cs ((alts, BeginText # cur) # fs)
      else if c \<in> set (CHR 0x5C # ''[]{}+?$'') then None
      else parseRegexp cs ((alts, Literal c # cur) # fs))"

definition Compile :: "string \<Rightarrow> regexp option" where
  "Compile pattern = parseRegexp pattern [([], [])]"

text \<open>
  \<open>regexp.MustCompile\<close> panics on a pattern that does not parse; the pattern of this
  package parses (lemma \<open>regModuleVersionNotFound_compiles\<close>).
\<close>

definition MustCompile :: "string \<Rightarrow> regexp" where
  "MustCompile pattern = (case Compile pattern of Some re \<Rightarrow> re | None \<Rightarrow> NoMatch)"

subsection \<open>Matching\<close>

text \<open>
  Go's matcher reads the text rune by rune: a well-formed UTF-8 sequence is one rune, and
  any other byte is a rune of its own (\<open>utf8.DecodeRuneInString\<close>). \<open>runeLen\<close> is the
  width of the first rune of a non-empty string.
\<close>

definition byteIn :: "char \<Rightarrow> nat \<Rightarrow> nat \<Rightarrow> bool" where
  "byteIn b lo hi = (lo \<le> (of_char b :: nat) \<and> (of_char b :: nat) \<le> hi)"

fun runeLen :: "string \<Rightarrow> nat" where
  "runeLen [] = 0"
| "runeLen (b0 # rest) =
     (if byteIn b0 0x00 0x7F then 1
      else if byteIn b0 0xC2 0xDF then
        (case rest of
           b1 # _ \<Rightarrow> if byteIn b1 0x80 0xBF then 2 else 1
         | _ \<Rightarrow> 1)
      else if byteIn b0 0xE0 0xEF then
        (case rest of
           b1 # b2 # _ \<Rightarrow>
             if byteIn b1 (if byteIn b0 0xE0 0xE0 then 0xA0 else 0x80)
                          (if byteIn b0 0xED 0xED then 0x9F else 0xBF)
                \<and> byteIn b2 0x80 0xBF
             then 3 else 1
         | _ \<Rightarrow> 1)
      else if byteIn b0 0xF0 0xF4 then
        (case rest of
           b1 # b2 # b3 # _ \<Rightarrow>
             if byteIn b1 (if byteIn b0 0xF0 0xF0 then 0x90 else 0x80)
                          (if byteIn b0 0xF4 0xF4 then 0x8F else 0xBF)
                \<and> byteIn b2 0x80 0xBF \<and> byteIn b3 0x80 0xBF
             then 4 else 1
         | _ \<Rightarrow> 1)
      else 1)"

lemma runeLen_pos: "0 < runeLen (c # cs)"
  by (simp split: list.splits)

function runes :: "string \<Rightarrow> string list" where
  "runes [] = []"
| "runes (c # cs) =
     take (runeLen (c # cs)) (c # cs) # runes (drop (runeLen (c # cs)) (c # cs))"
  by pat_completeness auto
termination
proof (relation "measure length")
  show "wf (measure length)" by simp
next
  fix c :: char and cs :: string
  have "0 < runeLen (c # cs)" by (rule runeLen_pos)
  then show "(drop (runeLen (c # cs)) (c # cs), c # cs) \<in> measure length"
    by (cases "runeLen (c # cs)") simp_all
qed

text \<open>
  Matching is by derivatives. The flag says whether the position is the beginning of the
  text, where \<open>^\<close> matches the empty string; after one rune it no longer is.
  \<open>nullable b r\<close>: \<open>r\<close> matches the empty string at this position.
  \<open>deriv b t r\<close>: what remains of \<open>r\<close> to match after the rune \<open>t\<close>.
\<close>

fun nullable :: "bool \<Rightarrow> regexp \<Rightarrow> bool" where
  "nullable b NoMatch = False"
| "nullable b EmptyMatch = True"
| "nullable b (Literal c) = False"
| "nullable b AnyCharNotNL = False"
| "nullable b BeginText = b"
| "nullable b (Concat r s) = (nullable b r \<and> nullable b s)"
| "nullable b (Alternate r s) = (nullable b r \<or> nullable b s)"
| "nullable b (Star r) = True"

definition cat :: "regexp \<Rightarrow> regexp \<Rightarrow> regexp" where
  "cat r s = (if r = NoMatch then NoMatch else Concat r s)"

definition alt :: "regexp \<Rightarrow> regexp \<Rightarrow> regexp" where
  "alt r s = (if r = NoMatch then s else if s = NoMatch then r else Alternate r s)"

fun deriv :: "bool \<Rightarrow> string \<Rightarrow> regexp \<Rightarrow> regexp" where
  "deriv b t NoMatch = NoMatch"
| "deriv b t EmptyMatch = NoMatch"
| "deriv b t (Literal c) = (if t = [c] then EmptyMatch else NoMatch)"
| "deriv b t AnyCharNotNL = (if t = [CHR 0x0A] then NoMatch else EmptyMatch)"
| "deriv b t BeginText = NoMatch"
| "deriv b t (Concat r s) =
     (if nullable b r then alt (cat (deriv b t r) s) (deriv b t s)
      else cat (deriv b t r) s)"
| "deriv b t (Alternate r s) = alt (deriv b t r) (deriv b t s)"
| "deriv b t (Star r) = cat (deriv b t r) (Star r)"

text \<open>\<open>matchPrefix b r ts\<close>: \<open>r\<close> matches some prefix of the runes \<open>ts\<close>.\<close>

fun matchPrefix :: "bool \<Rightarrow> regexp \<Rightarrow> string list \<Rightarrow> bool" where
  "matchPrefix b r [] = nullable b r"
| "matchPrefix b r (t # ts) = (nullable b r \<or> matchPrefix False (deriv b t r) ts)"

text \<open>\<open>matchFrom b r ts\<close>: \<open>r\<close> matches somewhere in \<open>ts\<close> (the pattern is unanchored).\<close>

fun matchFrom :: "bool \<Rightarrow> regexp \<Rightarrow> string list \<Rightarrow> bool" where
  "matchFrom b r [] = matchPrefix b r []"
| "matchFrom b r (t # ts) = (matchPrefix b r (t # ts) \<or> matchFrom False r ts)"

definition MatchString :: "regexp \<Rightarrow> string \<Rightarrow> bool" where
  "MatchString re s = matchFrom True re (runes s)"

text \<open>
  \<open>regModuleVersionNotFound\<close> (goproxy.go, lines 33-55), the pattern as the source
  concatenates it, line by line.
\<close>

definition regModuleVersionNotFoundPattern :: string where
  "regModuleVersionNotFoundPattern =
     ''(400 Bad Request)|'' @
     ''(403 Forbidden)|'' @
     ''(404 Not Found)|'' @
     ''(410 Gone)|'' @
     ''(^bad request: .*)|'' @
     ''(^gone: .*)|'' @
     ''(^not found: .*)|'' @
     ''(could not read Username)|'' @
     ''(does not contain package)|'' @
     ''(go.mod has non-.* module path)|'' @
     ''(go.mod has post-.* module path)|'' @
     ''(invalid .* import path)|'' @
     ''(invalid pseudo-version)|'' @
     ''(invalid version)|'' @
     ''(missing .*/go.mod and .*/go.mod at revision)|'' @
     ''(no matching versions)|'' @
     ''(repository .* not found)|'' @
     ''(unable to connect to)|'' @
     ''(unknown revision)|'' @
     ''(unrecognized import path)'' @
     ''(untrusted revision)|''"

definition regModuleVersionNotFound :: regexp where
  "regModuleVersionNotFound = MustCompile regModuleVersionNotFoundPattern"

section \<open>The handler's configuration\<close>

text \<open>
  The struct \<open>Goproxy\<close> (goproxy.go, lines 77-149). \<open>goBinEnv\<close> is a Go map from
  strings to strings: reading a key that is absent gives the empty string (\<open>getenv\<close>).
  \<open>supportedSUMDBNames\<close> is a Go map from strings to booleans, read the same way
  (absent = false). \<open>loaded\<close> is the state of \<open>loadOnce\<close>. The cache backend, the
  logger, the worker channel and the verification client are the handler's surroundings
  (record \<open>world\<close> below).
\<close>

record goproxy =
  GoBinName :: string
  GoBinEnv :: "string list"
  MaxGoBinWorkers :: int
  PathPrefix :: string
  MaxZIPCacheBytes :: int
  SupportedSUMDBNames :: "string list"
  DisableNotFoundLog :: bool
  loaded :: bool
  goBinEnv :: "string \<rightharpoonup> string"
  supportedSUMDBNames :: "string \<Rightarrow> bool"

text \<open>\<open>New\<close> (lines 155-164); the argument stands for \<open>os.Environ()\<close>.\<close>

definition New :: "string list \<Rightarrow> goproxy" where
  "New environ =
     \<lparr>GoBinName = ''go'', GoBinEnv = environ, MaxGoBinWorkers = 0, PathPrefix = [],
      MaxZIPCacheBytes = 0, SupportedSUMDBNames = [''sum.golang.org''],
      DisableNotFoundLog = False, loaded = False, goBinEnv = Map.empty,
      supportedSUMDBNames = (\<lambda>n. False)\<rparr>"

definition getenv :: "(string \<rightharpoonup> string) \<Rightarrow> string \<Rightarrow> string" where
  "getenv m k = (case m k of None \<Rightarrow> [] | Some v \<Rightarrow> v)"

subsection \<open>load (lines 167-256)\<close>

text \<open>Lines 168-175: each entry \<open>key=value\<close> of \<open>GoBinEnv\<close>, later entries winning.\<close>

fun readGoBinEnv :: "(string \<rightharpoonup> string) \<Rightarrow> string list \<Rightarrow> (string \<rightharpoonup> string)" where
  "readGoBinEnv m [] = m"
| "readGoBinEnv m (e # es) =
     (case SplitN2 e (CHR ''='') of
        [k, v] \<Rightarrow> readGoBinEnv (m(k \<mapsto> v)) es
      | _ \<Rightarrow> readGoBinEnv m es)"

text \<open>
  Lines 181-192, the loop over the comma-separated entries of \<open>GOPROXY\<close>. The first
  argument is \<open>strings.TrimSpace\<close>; the last one is the slice \<open>proxies\<close> built so far.
\<close>

fun proxiesLoop :: "(string \<Rightarrow> string) \<Rightarrow> string list \<Rightarrow> string list \<Rightarrow> string list" where
  "proxiesLoop trimSpace [] proxies = proxies"
| "proxiesLoop trimSpace (p # rest) proxies =
     (if trimSpace p = [] then proxiesLoop trimSpace rest proxies
      else if trimSpace p = ''direct'' \<or> trimSpace p = ''off'' then proxies @ [trimSpace p]
      else proxiesLoop trimSpace rest (proxies @ [trimSpace p]))"

text \<open>Lines 213-221 and 231-239: the same loop without the \<open>break\<close>.\<close>

fun trimmedLoop :: "(string \<Rightarrow> string) \<Rightarrow> string list \<Rightarrow> string list \<Rightarrow> string list" where
  "trimmedLoop trimSpace [] acc = acc"
| "trimmedLoop trimSpace (p # rest) acc =
     (if trimSpace p = [] then trimmedLoop trimSpace rest acc
      else trimmedLoop trimSpace rest (acc @ [trimSpace p]))"

text \<open>Lines 251-255; the first argument is \<open>idna.Lookup.ToASCII\<close>.\<close>

fun supportNames :: "(string \<Rightarrow> string option) \<Rightarrow> (string \<Rightarrow> bool) \<Rightarrow> string list \<Rightarrow> (string \<Rightarrow> bool)" where
  "supportNames toASCII m [] = m"
| "supportNames toASCII m (name # names) =
     (case toASCII name of
        Some n \<Rightarrow> supportNames toASCII (m(n := True)) names
      | None \<Rightarrow> supportNames toASCII m names)"

text \<open>
  \<open>load\<close> settles one variable after the other; each step is a function of the
  environment read so far. The worker channel (lines 177-179) and the verification
  client (lines 245-249) are made there too; they belong to the surroundings.
  Lines 181-200: \<open>GOPROXY\<close>.
\<close>

definition loadGOPROXY :: "(string \<Rightarrow> string) \<Rightarrow> (string \<rightharpoonup> string) \<Rightarrow> (string \<rightharpoonup> string)" where
  "loadGOPROXY trimSpace e =
     (if length (proxiesLoop trimSpace (Split (getenv e ''GOPROXY'') '','') []) > 0 then
        e(''GOPROXY'' \<mapsto>
          Join (proxiesLoop trimSpace (Split (getenv e ''GOPROXY'') '','') []) '','')
      else if getenv e ''GOPROXY'' = [] then
        e(''GOPROXY'' \<mapsto> ''https://proxy.golang.org,direct'')
      else e(''GOPROXY'' \<mapsto> ''off''))"

text \<open>Lines 202-207: \<open>GOSUMDB\<close>.\<close>

definition loadGOSUMDB :: "(string \<Rightarrow> string) \<Rightarrow> (string \<rightharpoonup> string) \<Rightarrow> (string \<rightharpoonup> string)" where
  "loadGOSUMDB trimSpace e =
     (let e' = e(''GOSUMDB'' \<mapsto> trimSpace (getenv e ''GOSUMDB''))
      in if getenv e' ''GOSUMDB'' = [] \<or> getenv e' ''GOSUMDB'' = ''sum.golang.org''
         then e'(''GOSUMDB'' \<mapsto>
                ''sum.golang.org'' @
                ''+033de0ae+Ac4zctda0e5eza+HJyk9SxEdh+s3Ux18htTTAD8OuAn8'')
         else e')"

text \<open>
  Lines 209-225 for \<open>GONOPROXY\<close> and lines 227-243 for \<open>GONOSUMDB\<close>: an empty value
  becomes the one of \<open>GOPRIVATE\<close>; the entries are then trimmed and the empty ones
  dropped, unless none is left.
\<close>

definition loadPrivate :: "string \<Rightarrow> (string \<Rightarrow> string) \<Rightarrow> (string \<rightharpoonup> string) \<Rightarrow> (string \<rightharpoonup> string)" where
  "loadPrivate key trimSpace e =
     (let e' = (if getenv e key = [] then e(key \<mapsto> getenv e ''GOPRIVATE'') else e)
      in if length (trimmedLoop trimSpace (Split (getenv e' key) '','') []) > 0
         then e'(key \<mapsto> Join (trimmedLoop trimSpace (Split (getenv e' key) '','') []) '','')
         else e')"

definition load :: "(string \<Rightarrow> string) \<Rightarrow> (string \<Rightarrow> string option) \<Rightarrow> goproxy \<Rightarrow> goproxy" where
  "load trimSpace toASCII g =
     g\<lparr>goBinEnv :=
         loadPrivate ''GONOSUMDB'' trimSpace
           (loadPrivate ''GONOPROXY'' trimSpace
              (loadGOSUMDB trimSpace
                 (loadGOPROXY trimSpace (readGoBinEnv (goBinEnv g) (GoBinEnv g))))),
       supportedSUMDBNames :=
         supportNames toASCII (supportedSUMDBNames g) (SupportedSUMDBNames g)\<rparr>"

section \<open>Glob lists\<close>

text \<open>
  \<open>globsMatchPath\<close> (lines 966-1010). \<open>path.Match\<close> belongs to Go's standard library
  and is a parameter here: it returns whether the name matches the shell pattern, and an
  error for a malformed pattern, which \<open>globsMatchPath\<close> drops.

  \<open>walk target n\<close> is the inner loop (lines 984-997): it goes through the target, counts
  \<open>n\<close> down at every slash and stops before the slash met when \<open>n\<close> is zero. It returns
  \<open>prefix\<close> (the whole target when the loop runs to its end) and what is left of \<open>n\<close>.
\<close>

type_synonym matcher = "string \<Rightarrow> string \<Rightarrow> bool \<times> string option"

fun walk :: "string \<Rightarrow> nat \<Rightarrow> string \<times> nat" where
  "walk [] n = ([], n)"
| "walk (c # cs) n =
     (if c = CHR ''/'' then
        (if n = 0 then ([], 0)
         else (case walk cs (n - 1) of (prefix, n') \<Rightarrow> (c # prefix, n')))
      else (case walk cs n of (prefix, n') \<Rightarrow> (c # prefix, n')))"

function globsMatchPath :: "matcher \<Rightarrow> string \<Rightarrow> string \<Rightarrow> bool" where
  "globsMatchPath pathMatch globs target =
     (if globs = [] then False
      else
        (let glob = (case IndexByte globs (CHR '','') of
                       Some i \<Rightarrow> take i globs | None \<Rightarrow> globs);
             rest = (case IndexByte globs (CHR '','') of
                       Some i \<Rightarrow> drop (Suc i) globs | None \<Rightarrow> [])
         in if glob = [] then globsMatchPath pathMatch rest target
            else if snd (walk target (Count glob (CHR ''/''))) > 0
              then globsMatchPath pathMatch rest target
            else if fst (pathMatch glob (fst (walk target (Count glob (CHR ''/'')))))
              then True
            else globsMatchPath pathMatch rest target))"
  by pat_completeness auto
termination
  by (relation "measure (\<lambda>(m, globs, target). length globs)")
     (auto split: option.splits)

declare globsMatchPath.simps [simp del]

section \<open>The surroundings of the handler\<close>

text \<open>
  What \<open>ServeHTTP\<close> reads from outside \<open>goproxy.go\<close> is collected in one record. An
  error is its message; a call that can fail returns \<open>Inl\<close> of the message (or \<open>None\<close>
  where the handler never looks at the message).
\<close>

type_synonym error = string

record request =
  Method :: string
  URLPath :: string

text \<open>The fields of \<open>url.URL\<close> that the handler reads; \<open>User\<close> is a name and, if set, a password.\<close>

record url =
  Scheme :: string
  User :: "(string \<times> string option) option"
  Host :: string
  Path :: string

text \<open>
  The result of the toolchain driver \<open>mod\<close>, with the fields \<open>ServeHTTP\<close> reads
  (the type is declared in another file of the package).
\<close>

record modResult =
  Version :: string
  Versions :: "string list"
  Info :: string
  GoMod :: string
  Zip :: string

text \<open>
  A \<open>Cache\<close>, by the methods the handler calls on it; \<open>Content\<close> is what is read
  from it.
\<close>

record cache =
  MIMEType :: string
  Checksum :: string
  Size :: int
  Content :: string

datatype cacheLookup = Hit cache | ErrCacheNotFound | CacheFailure error

text \<open>
  An upstream answer: status code, status line, the \<open>Content-Length\<close> header, the body,
  and the error of reading the body, if any.
\<close>

record httpResponse =
  StatusCode :: nat
  Status :: string
  ContentLength :: string
  Body :: string
  ReadErr :: "error option"

text \<open>
  \<open>http.DefaultClient.Do\<close>: \<open>Timeout\<close> is an error that is a \<open>*url.Error\<close> whose
  \<open>Timeout()\<close> holds, \<open>Failed\<close> any other error.
\<close>

datatype doResult = Timeout | Failed error | Responded httpResponse

record world =
  pathClean :: "string \<Rightarrow> string"
  PathUnescape :: "string \<Rightarrow> string option"
  urlParse :: "string \<Rightarrow> error + url"
  urlString :: "url \<Rightarrow> string"
  ToLower :: "string \<Rightarrow> string"
  TrimSpace :: "string \<Rightarrow> string"
  ToASCII :: "string \<Rightarrow> string option"
  UnescapePath :: "string \<Rightarrow> string option"
  UnescapeVersion :: "string \<Rightarrow> string option"
  EscapeVersion :: "string \<Rightarrow> error + string"
  semverIsValid :: "string \<Rightarrow> bool"
  pathMatch :: matcher
  pathDir :: "string \<Rightarrow> string"
  pathJoin :: "string \<Rightarrow> string \<Rightarrow> string"
  base64 :: "string \<Rightarrow> string"
  TempDir :: "error + string"
  modRun :: "string \<Rightarrow> string \<Rightarrow> string \<Rightarrow> error + modResult"
  cacherCache :: "string \<Rightarrow> cacheLookup"
  cacherSetCache :: "cache \<Rightarrow> error option"
  newTempCache :: "string \<Rightarrow> string \<Rightarrow> error + cache"
  sumdbLookup :: "string \<Rightarrow> string \<Rightarrow> error + string list"
  HashZip :: "string \<Rightarrow> error + string"
  Hash1 :: "string \<Rightarrow> error + string"
  NewRequest :: "string \<Rightarrow> error option"
  httpDo :: "string \<Rightarrow> doResult"

text \<open>
  The first fields are functions of Go's libraries: \<open>path.Clean\<close>,
  \<open>url.PathUnescape\<close>, \<open>url.Parse\<close>, \<open>(*url.URL).String\<close>, \<open>strings.ToLower\<close>,
  \<open>strings.TrimSpace\<close>, \<open>idna.Lookup.ToASCII\<close>, \<open>module.UnescapePath\<close>,
  \<open>module.UnescapeVersion\<close>, \<open>module.EscapeVersion\<close>, \<open>semver.IsValid\<close>, \<open>path.Match\<close>,
  \<open>path.Dir\<close>, \<open>path.Join\<close> and the standard base64 encoding. The others are what one
  request finds outside: \<open>ioutil.TempDir\<close>, the toolchain driver \<open>mod\<close> (by operation,
  module path and version), \<open>Cache\<close> and \<open>SetCache\<close> of the cacher in use (the one
  configured, or the temporary one of lines 611-614), \<open>newTempCache\<close> (by file and name),
  \<open>Lookup\<close> of the verification client, \<open>dirhash.HashZip\<close>, \<open>dirhash.Hash1\<close> of the
  go.mod file, \<open>http.NewRequest\<close> and \<open>http.DefaultClient.Do\<close> (by URL).

  What the handler does to its surroundings, in the order it does it: a line given to the
  error logger, a run of the toolchain (operation, module path, version), a probe of the
  cache, a look-up in the checksum database (module path, version), the hashing of a
  file, a call of \<open>SetCache\<close> (with the name the entry was created under) and an
  upstream request. The debugging prints to standard output and the clean-up of the
  scratch directory are left out.
\<close>

datatype event =
    Logged string
  | Ran string string string
  | CacheGet string
  | Looked string string
  | HashedZip string
  | HashedGoMod string
  | SetCache string
  | Fetched string

section \<open>Responses\<close>

text \<open>
  A response as far as this development observes it: the status, the \<open>max-age\<close> of the
  \<open>Cache-Control\<close> header if the header was set, three more headers and the body.
\<close>

record response =
  status :: nat
  maxAge :: "nat option"
  contentType :: string
  contentLength :: string
  etag :: string
  body :: string

definition emptyResponse :: response where
  "emptyResponse =
     \<lparr>status = 200, maxAge = None, contentType = [], contentLength = [], etag = [],
      body = []\<rparr>"

text \<open>
  Modelled from the spec: the response helpers \<open>setResponseCacheControlHeader\<close>,
  \<open>responseString\<close>, \<open>responseNotFound\<close>, \<open>responseMethodNotAllowed\<close>,
  \<open>responseInternalServerError\<close> and \<open>responseBadGateway\<close> are defined in another file of
  the package. The spec gives the header as \<open>Cache-Control: public, max-age=<seconds>\<close>,
  the statuses as 404, 405, 500 and 502, and says of a not-found response that its body
  carries the message.
\<close>

definition setResponseCacheControlHeader :: "response \<Rightarrow> nat \<Rightarrow> response" where
  "setResponseCacheControlHeader rw seconds = rw\<lparr>maxAge := Some seconds\<rparr>"

definition responseString :: "response \<Rightarrow> nat \<Rightarrow> string \<Rightarrow> response" where
  "responseString rw code s = rw\<lparr>status := code, body := s\<rparr>"

definition responseNotFound :: "response \<Rightarrow> string list \<Rightarrow> response" where
  "responseNotFound rw msgs = responseString rw 404 (concat msgs)"

definition responseMethodNotAllowed :: "response \<Rightarrow> response" where
  "responseMethodNotAllowed rw = responseString rw 405 []"

definition responseInternalServerError :: "response \<Rightarrow> response" where
  "responseInternalServerError rw = responseString rw 500 []"

definition responseBadGateway :: "response \<Rightarrow> response" where
  "responseBadGateway rw = responseString rw 502 []"

type_synonym outcome = "response \<times> event list"

definition after :: "event list \<Rightarrow> outcome \<Rightarrow> outcome" where
  "after evs out = (fst out, evs @ snd out)"

section \<open>ServeHTTP (lines 286-875)\<close>

text \<open>
  The handler is one long function; it is cut here where it changes subject, each part
  with the lines it embeds. Every part returns the response and what it did.

  \<open>respondModError\<close> is the block the source repeats wherever a driver or verification
  error arrives: lines 527-539, 582-594, 628-640, 659-673 and 717-731.
\<close>

definition respondModError :: "goproxy \<Rightarrow> error \<Rightarrow> outcome" where
  "respondModError g err =
     (if MatchString regModuleVersionNotFound err then
        (responseNotFound (setResponseCacheControlHeader emptyResponse 60) [err],
         if \<not> DisableNotFoundLog g then [Logged err] else [])
      else (responseInternalServerError emptyResponse, [Logged err]))"

text \<open>\<open>redactedURL\<close> (lines 937-950) and \<open>parseRawURL\<close> (lines 893-916).\<close>

definition redactedURL :: "world \<Rightarrow> url \<Rightarrow> string" where
  "redactedURL w u =
     (case User u of
        Some (username, Some password) \<Rightarrow>
          urlString w (u\<lparr>User := Some (username, Some ''[redacted]'')\<rparr>)
      | _ \<Rightarrow> urlString w u)"

text \<open>\<open>filepath.IsAbs\<close> (on Unix) and \<open>path.IsAbs\<close>: the path starts with a slash.\<close>

definition IsAbs :: "string \<Rightarrow> bool" where
  "IsAbs p = HasPrefix p ''/''"

definition parseRawURL :: "world \<Rightarrow> string \<Rightarrow> error + url" where
  "parseRawURL w rawURL =
     (case urlParse w
             (if ContainsAny rawURL ''.:/'' \<and> \<not> Contains rawURL '':/'' \<and>
                 \<not> IsAbs rawURL \<and> \<not> IsAbs rawURL
              then ''https://'' @ rawURL else rawURL) of
        Inl err \<Rightarrow> Inl err
      | Inr u \<Rightarrow>
          if ToLower w (Scheme u) = ''http'' \<or> ToLower w (Scheme u) = ''https''
          then Inr u
          else Inl (''invalid URL scheme (must be http or https): '' @ redactedURL w u))"

text \<open>\<open>path.Ext\<close>: from the last dot of the last element of the path, or empty.\<close>

fun extFrom :: "string \<Rightarrow> string \<Rightarrow> string" where
  "extFrom [] suffix = []"
| "extFrom (c # front) suffix =
     (if c = CHR ''/'' then []
      else if c = CHR ''.'' then c # suffix
      else extFrom front (c # suffix))"

definition Ext :: "string \<Rightarrow> string" where
  "Ext p = extFrom (rev p) []"

subsection \<open>The log reverse-proxy (lines 356-434)\<close>

definition sumdbFetch :: "goproxy \<Rightarrow> world \<Rightarrow> url \<Rightarrow> bool \<Rightarrow> string \<Rightarrow> outcome" where
  "sumdbFetch g w sumdbURL cachingForever ctype =
     (case NewRequest w (urlString w sumdbURL) of
        Some err \<Rightarrow> (responseInternalServerError emptyResponse, [Logged err])
      | None \<Rightarrow>
     (case httpDo w (urlString w sumdbURL) of
        Timeout \<Rightarrow> (responseBadGateway emptyResponse, [Fetched (urlString w sumdbURL)])
      | Failed err \<Rightarrow>
          (responseInternalServerError emptyResponse,
           [Fetched (urlString w sumdbURL), Logged err])
      | Responded sumdbRes \<Rightarrow>
          if StatusCode sumdbRes \<noteq> 200 then
            (case ReadErr sumdbRes of
               Some err \<Rightarrow>
                 (responseInternalServerError emptyResponse,
                  [Fetched (urlString w sumdbURL), Logged err])
             | None \<Rightarrow>
                 if StatusCode sumdbRes = 400 \<or> StatusCode sumdbRes = 404 \<or>
                    StatusCode sumdbRes = 410
                then
                  (responseNotFound
                     (setResponseCacheControlHeader emptyResponse
                        (if StatusCode sumdbRes = 404 then 60 else 3600))
                     [Body sumdbRes],
                   Fetched (urlString w sumdbURL) #
                   (if \<not> DisableNotFoundLog g then [Logged (Body sumdbRes)] else []))
                else
                  (responseBadGateway emptyResponse,
                   [Fetched (urlString w sumdbURL),
                    Logged (''GET '' @ redactedURL w sumdbURL @ '': '' @ Status sumdbRes @
                            '': '' @ Body sumdbRes)]))
          else
            (setResponseCacheControlHeader
               (emptyResponse\<lparr>contentType := ctype,
                               contentLength := ContentLength sumdbRes,
                               body := Body sumdbRes\<rparr>)
               (if cachingForever then 365 * 24 * 3600 else 60),
             [Fetched (urlString w sumdbURL)])))"

text \<open>Lines 315-354: the host must be a supported one, then the path picks the behaviour.\<close>

definition serveSumdb :: "goproxy \<Rightarrow> world \<Rightarrow> string \<Rightarrow> outcome" where
  "serveSumdb g w rawURL =
     (case parseRawURL w rawURL of
        Inl err \<Rightarrow>
          (responseNotFound (setResponseCacheControlHeader emptyResponse 3600) [], [])
      | Inr sumdbURL \<Rightarrow>
     (case ToASCII w (Host sumdbURL) of
        None \<Rightarrow>
          (responseNotFound (setResponseCacheControlHeader emptyResponse 3600) [], [])
      | Some sumdbName \<Rightarrow>
          if \<not> supportedSUMDBNames g sumdbName then
            (responseNotFound (setResponseCacheControlHeader emptyResponse 60) [], [])
          else if Path sumdbURL = ''/supported'' then
            (setResponseCacheControlHeader emptyResponse 60, [])
          else if Path sumdbURL = ''/latest'' then
            sumdbFetch g w sumdbURL False ''text/plain; charset=utf-8''
          else if HasPrefix (Path sumdbURL) ''/lookup/'' then
            sumdbFetch g w sumdbURL True ''text/plain; charset=utf-8''
          else if HasPrefix (Path sumdbURL) ''/tile/'' then
            sumdbFetch g w sumdbURL True ''application/octet-stream''
          else
            (responseNotFound (setResponseCacheControlHeader emptyResponse 3600) [], [])))"

subsection \<open>Verification against the checksum database (lines 643-762)\<close>

text \<open>
  \<open>Inr\<close>: the download passed (or verification is switched off) and the handler goes on;
  \<open>Inl\<close>: the handler has answered and returns.
\<close>

definition untrusted :: "string \<Rightarrow> response" where
  "untrusted moduleVersion =
     responseNotFound (setResponseCacheControlHeader emptyResponse 3600)
       [''untrusted revision '' @ moduleVersion]"

text \<open>Lines 643-644: whether the download is checked against the checksum database.\<close>

definition verifying :: "goproxy \<Rightarrow> world \<Rightarrow> string \<Rightarrow> bool" where
  "verifying g w modulePath =
     (getenv (goBinEnv g) ''GOSUMDB'' \<noteq> ''off'' \<and>
      \<not> globsMatchPath (pathMatch w) (getenv (goBinEnv g) ''GONOSUMDB'') modulePath)"

definition verify :: "goproxy \<Rightarrow> world \<Rightarrow> string \<Rightarrow> string \<Rightarrow> modResult \<Rightarrow> outcome + event list" where
  "verify g w modulePath moduleVersion mr =
     (if verifying g w modulePath then
        (case sumdbLookup w modulePath moduleVersion of
           Inl err \<Rightarrow>
             Inl (after [Looked modulePath moduleVersion]
                    (respondModError g
                       (TrimPrefix err (modulePath @ ''@'' @ moduleVersion @ '': ''))))
         | Inr zipLines \<Rightarrow>
        (case HashZip w (Zip mr) of
           Inl err \<Rightarrow>
             Inl (responseInternalServerError emptyResponse,
                  [Looked modulePath moduleVersion, HashedZip (Zip mr), Logged err])
         | Inr zipHash \<Rightarrow>
             if \<not> stringSliceContains zipLines
                    (modulePath @ '' '' @ moduleVersion @ '' '' @ zipHash)
             then
               Inl (untrusted moduleVersion,
                    [Looked modulePath moduleVersion, HashedZip (Zip mr)])
             else
        (case sumdbLookup w modulePath (moduleVersion @ ''/go.mod'') of
           Inl err \<Rightarrow>
             Inl (after [Looked modulePath moduleVersion, HashedZip (Zip mr),
                         Looked modulePath (moduleVersion @ ''/go.mod'')]
                    (respondModError g
                       (TrimPrefix err (modulePath @ ''@'' @ moduleVersion @ '': ''))))
         | Inr goModLines \<Rightarrow>
        (case Hash1 w (GoMod mr) of
           Inl err \<Rightarrow>
             Inl (responseInternalServerError emptyResponse,
                  [Looked modulePath moduleVersion, HashedZip (Zip mr),
                   Looked modulePath (moduleVersion @ ''/go.mod''),
                   HashedGoMod (GoMod mr), Logged err])
         | Inr goModHash \<Rightarrow>
             if \<not> stringSliceContains goModLines
                    (modulePath @ '' '' @ moduleVersion @ ''/go.mod '' @ goModHash)
             then
               Inl (untrusted moduleVersion,
                    [Looked modulePath moduleVersion, HashedZip (Zip mr),
                     Looked modulePath (moduleVersion @ ''/go.mod''),
                     HashedGoMod (GoMod mr)])
             else
               Inr [Looked modulePath moduleVersion, HashedZip (Zip mr),
                    Looked modulePath (moduleVersion @ ''/go.mod''),
                    HashedGoMod (GoMod mr)]))))
      else Inr [])"

subsection \<open>The background write-back (lines 767-834)\<close>

text \<open>
  The goroutine that stores the three files. It returns at the first error, after logging
  it. Its events are what it does from start to end; it runs beside the foreground.
\<close>

definition writeBack :: "goproxy \<Rightarrow> world \<Rightarrow> modResult \<Rightarrow> string \<Rightarrow> string \<Rightarrow> event list" where
  "writeBack g w mr name nameExt =
     (case newTempCache w (Info mr) (TrimSuffix name nameExt @ ''.info'') of
        Inl err \<Rightarrow> [Logged err]
      | Inr infoCache \<Rightarrow>
     (case cacherSetCache w infoCache of
        Some err \<Rightarrow> [SetCache (TrimSuffix name nameExt @ ''.info''), Logged err]
      | None \<Rightarrow>
     (case newTempCache w (GoMod mr) (TrimSuffix name nameExt @ ''.mod'') of
        Inl err \<Rightarrow> [SetCache (TrimSuffix name nameExt @ ''.info''), Logged err]
      | Inr modCache \<Rightarrow>
     (case cacherSetCache w modCache of
        Some err \<Rightarrow>
          [SetCache (TrimSuffix name nameExt @ ''.info''),
           SetCache (TrimSuffix name nameExt @ ''.mod''), Logged err]
      | None \<Rightarrow>
     (case newTempCache w (Zip mr) (TrimSuffix name nameExt @ ''.zip'') of
        Inl err \<Rightarrow>
          [SetCache (TrimSuffix name nameExt @ ''.info''),
           SetCache (TrimSuffix name nameExt @ ''.mod''), Logged err]
      | Inr zipCache \<Rightarrow>
          if MaxZIPCacheBytes g = 0 \<or> Size zipCache \<le> MaxZIPCacheBytes g then
            (case cacherSetCache w zipCache of
               Some err \<Rightarrow>
                 [SetCache (TrimSuffix name nameExt @ ''.info''),
                  SetCache (TrimSuffix name nameExt @ ''.mod''),
                  SetCache (TrimSuffix name nameExt @ ''.zip''), Logged err]
             | None \<Rightarrow>
                 [SetCache (TrimSuffix name nameExt @ ''.info''),
                  SetCache (TrimSuffix name nameExt @ ''.mod''),
                  SetCache (TrimSuffix name nameExt @ ''.zip'')])
          else
            [SetCache (TrimSuffix name nameExt @ ''.info''),
             SetCache (TrimSuffix name nameExt @ ''.mod'')])))))"

subsection \<open>Serving a cache entry (lines 857-874)\<close>

text \<open>
  \<open>http.ServeContent\<close> is given a request without conditions or ranges here: it answers
  200 with the content, and without a body to a HEAD request. In both cases it sets
  \<open>Content-Length\<close> to the number of bytes of the content, which it finds by seeking to
  the end of the content.
\<close>

definition serveCache :: "world \<Rightarrow> request \<Rightarrow> bool \<Rightarrow> cache \<Rightarrow> response" where
  "serveCache w r cachingForever c =
     (setResponseCacheControlHeader
        (emptyResponse\<lparr>contentType := MIMEType c,
                        etag := [CHR 0x22] @ base64 w (Checksum c) @ [CHR 0x22]\<rparr>)
        (if cachingForever then 365 * 24 * 3600 else 60))
     \<lparr>status := 200, contentLength := Itoa (length (Content c)),
      body := (if Method r = ''HEAD'' then [] else Content c)\<rparr>"

subsection \<open>Fetching an artifact (lines 611-875)\<close>

text \<open>Lines 836-844: the file of the flavour that was asked for.\<close>

definition artifactFile :: "modResult \<Rightarrow> string \<Rightarrow> string" where
  "artifactFile mr nameExt =
     (if nameExt = ''.info'' then Info mr
      else if nameExt = ''.mod'' then GoMod mr
      else if nameExt = ''.zip'' then Zip mr
      else [])"

definition fetch :: "goproxy \<Rightarrow> world \<Rightarrow> request \<Rightarrow> string \<Rightarrow> string \<Rightarrow> string \<Rightarrow> string \<Rightarrow> bool \<Rightarrow> outcome" where
  "fetch g w r modulePath moduleVersion name nameExt cachingForever =
     (case cacherCache w name of
        ErrCacheNotFound \<Rightarrow>
          (case modRun w ''download'' modulePath moduleVersion of
             Inl err \<Rightarrow>
               after [CacheGet name, Ran ''download'' modulePath moduleVersion]
                 (respondModError g err)
           | Inr mr \<Rightarrow>
          (case verify g w modulePath moduleVersion mr of
             Inl out \<Rightarrow>
               after [CacheGet name, Ran ''download'' modulePath moduleVersion] out
           | Inr checks \<Rightarrow>
          (case newTempCache w (artifactFile mr nameExt) name of
             Inl err \<Rightarrow>
               (responseInternalServerError emptyResponse,
                [CacheGet name, Ran ''download'' modulePath moduleVersion] @ checks @
                writeBack g w mr name nameExt @ [Logged err])
           | Inr c \<Rightarrow>
               (serveCache w r cachingForever c,
                [CacheGet name, Ran ''download'' modulePath moduleVersion] @ checks @
                writeBack g w mr name nameExt))))
      | CacheFailure err \<Rightarrow>
          (responseInternalServerError emptyResponse, [CacheGet name, Logged err])
      | Hit c \<Rightarrow> (serveCache w r cachingForever c, [CacheGet name]))"

subsection \<open>From module coordinates to the artifact (lines 487-609)\<close>

text \<open>\<open>stagingRepos\<close> (lines 258-283).\<close>

definition stagingRepos :: "string list" where
  "stagingRepos =
     [''k8s.io/api'',
      ''k8s.io/apiextensions-apiserver'',
      ''k8s.io/apimachinery'',
      ''k8s.io/apiserver'',
      ''k8s.io/cli-runtime'',
      ''k8s.io/client-go'',
      ''k8s.io/cloud-provider'',
      ''k8s.io/cluster-bootstrap'',
      ''k8s.io/code-generator'',
      ''k8s.io/component-base'',
      ''k8s.io/cri-api'',
      ''k8s.io/csi-translation-lib'',
      ''k8s.io/kube-aggregator'',
      ''k8s.io/kube-controller-manager'',
      ''k8s.io/kube-proxy'',
      ''k8s.io/kube-scheduler'',
      ''k8s.io/kubectl'',
      ''k8s.io/kubelet'',
      ''k8s.io/legacy-cloud-providers'',
      ''k8s.io/metrics'',
      ''k8s.io/node-api'',
      ''k8s.io/sample-apiserver'',
      ''k8s.io/sample-cli-plugin'',
      ''k8s.io/sample-controller'']"

text \<open>Lines 487-494: the loop that looks the module path up in \<open>stagingRepos\<close>.\<close>

definition isStagingRepo :: "string \<Rightarrow> bool" where
  "isStagingRepo modulePath = stringSliceContains stagingRepos modulePath"

text \<open>Lines 495-499: the version the toolchain is asked for.\<close>

definition stagingVersion :: "string \<Rightarrow> string \<Rightarrow> string" where
  "stagingVersion modulePath moduleVersion =
     (if isStagingRepo modulePath \<and> HasPrefix moduleVersion ''v0.1''
      then ''kubernetes-1.'' @ TrimPrefix moduleVersion ''v0.''
      else moduleVersion)"

text \<open>
  Lines 544-555: the loop over the listed versions; at the first one that starts with
  \<open>kubernetes-1.\<close> it appends \<open>zeroVer\<close> to the list and stops.
\<close>

fun addZeroVer :: "string \<Rightarrow> string list \<Rightarrow> string list \<Rightarrow> string list" where
  "addZeroVer moduleVersion [] versions = versions"
| "addZeroVer moduleVersion (v # vs) versions =
     (if HasPrefix v ''kubernetes-1.''
      then versions @ [''v0.'' @ TrimPrefix moduleVersion ''kubernetes-1.'']
      else addZeroVer moduleVersion vs versions)"

definition resolve :: "goproxy \<Rightarrow> world \<Rightarrow> request \<Rightarrow> string \<Rightarrow> bool \<Rightarrow> bool \<Rightarrow> string \<Rightarrow> string \<Rightarrow> string \<Rightarrow> outcome" where
  "resolve g w r name isLatest isList modulePath nameExt requested =
     (case TempDir w of
        Inl err \<Rightarrow> (responseInternalServerError emptyResponse, [Logged err])
      | Inr goproxyRoot \<Rightarrow>
          if isList then
            (case modRun w ''list'' modulePath (stagingVersion modulePath requested) of
               Inl err \<Rightarrow>
                 after [Ran ''list'' modulePath (stagingVersion modulePath requested)]
                   (respondModError g err)
             | Inr mr \<Rightarrow>
                 (responseString (setResponseCacheControlHeader emptyResponse 60) 200
                    (Join (if isStagingRepo modulePath
                           then addZeroVer (stagingVersion modulePath requested)
                                  (Versions mr) (Versions mr)
                           else Versions mr)
                       [CHR 0x0A]),
                  [Ran ''list'' modulePath (stagingVersion modulePath requested)]))
          else if isLatest \<or> \<not> semverIsValid w (stagingVersion modulePath requested) then
            (case modRun w (if isLatest then ''latest'' else ''lookup'') modulePath
                    (stagingVersion modulePath requested) of
               Inl err \<Rightarrow>
                 after [Ran (if isLatest then ''latest'' else ''lookup'') modulePath
                          (stagingVersion modulePath requested)]
                   (respondModError g err)
             | Inr mr \<Rightarrow>
                 (case EscapeVersion w (Version mr) of
                    Inl err \<Rightarrow>
                      (responseInternalServerError emptyResponse,
                       [Ran (if isLatest then ''latest'' else ''lookup'') modulePath
                          (stagingVersion modulePath requested),
                        Logged err])
                  | Inr escapedModuleVersion \<Rightarrow>
                      after [Ran (if isLatest then ''latest'' else ''lookup'') modulePath
                               (stagingVersion modulePath requested)]
                        (fetch g w r modulePath (Version mr)
                           (pathJoin w (pathDir w name) (escapedModuleVersion @ nameExt))
                           nameExt False)))
          else
            fetch g w r modulePath (stagingVersion modulePath requested) name nameExt True)"

subsection \<open>Decoding a module request (lines 437-485)\<close>

definition malformed :: outcome where
  "malformed = (responseNotFound (setResponseCacheControlHeader emptyResponse 3600) [], [])"

definition serveModule :: "goproxy \<Rightarrow> world \<Rightarrow> request \<Rightarrow> string \<Rightarrow> outcome" where
  "serveModule g w r name0 =
     (let isLatest = HasSuffix name0 ''/@latest'';
          isList = (\<not> isLatest \<and> HasSuffix name0 ''/@v/list'');
          name = (if isLatest then TrimSuffix name0 ''latest'' @ ''v/latest.info''
                  else if isList then TrimSuffix name0 ''list'' @ ''latest.info''
                  else name0);
          nameParts = Split name ''/@v/''
      in if length nameParts \<noteq> 2 then malformed
         else
           (case UnescapePath w (nameParts ! 0) of
              None \<Rightarrow> malformed
            | Some modulePath \<Rightarrow>
                if Ext (nameParts ! 1) \<noteq> ''.info'' \<and> Ext (nameParts ! 1) \<noteq> ''.mod'' \<and>
                   Ext (nameParts ! 1) \<noteq> ''.zip''
                then malformed
                else
                  (case UnescapeVersion w
                          (TrimSuffix (nameParts ! 1) (Ext (nameParts ! 1))) of
                     None \<Rightarrow> malformed
                   | Some moduleVersion \<Rightarrow>
                       resolve g w r name isLatest isList modulePath
                         (Ext (nameParts ! 1)) moduleVersion)))"

subsection \<open>The entry point (lines 286-313)\<close>

text \<open>\<open>handle\<close> is \<open>ServeHTTP\<close> after \<open>loadOnce\<close> has run.\<close>

definition handle :: "goproxy \<Rightarrow> world \<Rightarrow> request \<Rightarrow> outcome" where
  "handle g w r =
     (if Method r \<noteq> ''GET'' \<and> Method r \<noteq> ''HEAD'' then
        (responseMethodNotAllowed (setResponseCacheControlHeader emptyResponse 3600), [])
      else if \<not> HasPrefix (URLPath r) ''/'' then malformed
      else
        (case PathUnescape w
                (TrimLeftSlash (TrimPrefix (pathClean w (URLPath r)) (PathPrefix g))) of
           None \<Rightarrow> malformed
         | Some name \<Rightarrow>
             if HasPrefix name ''sumdb/'' then serveSumdb g w (TrimPrefix name ''sumdb/'')
             else serveModule g w r name))"

text \<open>
  \<open>loadOnce\<close> runs \<open>load\<close> at the first request only; the handler comes back with
  \<open>loaded\<close> set.
\<close>

definition loadOnce :: "world \<Rightarrow> goproxy \<Rightarrow> goproxy" where
  "loadOnce w g =
     (if loaded g then g else (load (TrimSpace w) (ToASCII w) g)\<lparr>loaded := True\<rparr>)"

definition ServeHTTP :: "goproxy \<Rightarrow> world \<Rightarrow> request \<Rightarrow> outcome \<times> goproxy" where
  "ServeHTTP g w r = (handle (loadOnce w g) w r, loadOnce w g)"

section \<open>The spec's own words\<close>

text \<open>
  The not-found signals as the spec lists them (section 4.H), each one a pattern of its
  own; \<open>hasNotFoundSignal\<close> says whether a message shows one of them.
\<close>

definition notFoundSignals :: "string list" where
  "notFoundSignals =
     [''400 Bad Request'', ''403 Forbidden'', ''404 Not Found'', ''410 Gone'',
      ''^bad request: .*'', ''^gone: .*'', ''^not found: .*'',
      ''could not read Username'', ''does not contain package'',
      ''go.mod has non-.* module path'', ''go.mod has post-.* module path'',
      ''invalid .* import path'', ''invalid pseudo-version'', ''invalid version'',
      ''missing .*/go.mod and .*/go.mod at revision'', ''no matching versions'',
      ''repository .* not found'', ''unable to connect to'', ''unknown revision'',
      ''unrecognized import path'', ''untrusted revision'']"

definition hasNotFoundSignal :: "string \<Rightarrow> bool" where
  "hasNotFoundSignal msg = list_ex (\<lambda>p. MatchString (MustCompile p) msg) notFoundSignals"

text \<open>
  The normal form of \<open>GOPROXY\<close> in the spec's words (section 6): the entries between
  the commas, trimmed, without the empty ones, up to and including the first \<open>direct\<close> or
  \<open>off\<close>, joined by commas; the default when nothing is left of an empty value, and
  \<open>off\<close> when nothing is left of another one.
\<close>

fun uptoSentinel :: "string list \<Rightarrow> string list" where
  "uptoSentinel [] = []"
| "uptoSentinel (p # ps) =
     (if p = ''direct'' \<or> p = ''off'' then [p] else p # uptoSentinel ps)"

definition normalizedGOPROXY :: "(string \<Rightarrow> string) \<Rightarrow> string \<Rightarrow> string" where
  "normalizedGOPROXY trimSpace s =
     (if uptoSentinel (filter (\<lambda>p. p \<noteq> []) (map trimSpace (Split s '',''))) \<noteq> [] then
        Join (uptoSentinel (filter (\<lambda>p. p \<noteq> []) (map trimSpace (Split s '','')))) '',''
      else if s = [] then ''https://proxy.golang.org,direct''
      else ''off'')"

text \<open>
  Glob lists in the spec's words (section 6): the path elements of the target are what
  stands between its slashes; a pattern with \<open>N\<close> slashes is held against the first
  \<open>N + 1\<close> of them, and a target with fewer does not match it. A malformed pattern
  matches nothing: for it \<open>path.Match\<close> answers false beside its error.
\<close>

definition firstElements :: "nat \<Rightarrow> string \<Rightarrow> string" where
  "firstElements k target = Join (take k (Split target ''/'')) ''/''"

definition globMatches :: "matcher \<Rightarrow> string \<Rightarrow> string \<Rightarrow> bool" where
  "globMatches match target glob =
     (glob \<noteq> [] \<and>
      Suc (Count glob (CHR ''/'')) \<le> length (Split target ''/'') \<and>
      fst (match glob (firstElements (Suc (Count glob (CHR ''/''))) target)))"

definition globsMatchPathSpec :: "matcher \<Rightarrow> string \<Rightarrow> string \<Rightarrow> bool" where
  "globsMatchPathSpec match globs target =
     list_ex (globMatches match target) (Split globs '','')"

section \<open>Reading what the handler did\<close>


text \<open>The runs of the toolchain among the events, in order.\<close>

fun runs :: "event list \<Rightarrow> (string \<times> string \<times> string) list" where
  "runs [] = []"
| "runs (Ran operation modulePath moduleVersion # es) =
     (operation, modulePath, moduleVersion) # runs es"
| "runs (e # es) = runs es"

section \<open>A sample world\<close>

text \<open>
  Surroundings for running the handler on the scenarios of the spec (section 8): a
  toolchain that resolves every request to \<open>v1.2.3\<close> of the module, an empty cache that
  accepts every write, a checksum database that knows one line, and library functions
  that leave their sample arguments as they are.
\<close>

definition sampleResult :: modResult where
  "sampleResult =
     \<lparr>Version = ''v1.2.3'', Versions = [''v1.0.0'', ''v1.1.0''],
      Info = ''/tmp/goproxy/v1.2.3.info'', GoMod = ''/tmp/goproxy/v1.2.3.mod'',
      Zip = ''/tmp/goproxy/v1.2.3.zip''\<rparr>"

definition sampleCache :: "string \<Rightarrow> cache" where
  "sampleCache file =
     \<lparr>MIMEType = ''application/octet-stream'', Checksum = ''sum'',
      Size = int (length file), Content = file\<rparr>"

definition sampleURL :: url where
  "sampleURL =
     \<lparr>Scheme = ''https'', User = None, Host = ''sum.example.org'', Path = ''/lookup/x''\<rparr>"

definition trimBlanks :: "string \<Rightarrow> string" where
  "trimBlanks s =
     rev (dropWhile (\<lambda>c. c = CHR '' '') (rev (dropWhile (\<lambda>c. c = CHR '' '') s)))"

definition sampleWorld :: world where
  "sampleWorld =
     \<lparr>pathClean = (\<lambda>p. p), PathUnescape = Some,
      urlParse = (\<lambda>s. if s = ''https://sum.example.org/lookup/x'' then Inr sampleURL
                       else Inl ''parse error''),
      urlString = (\<lambda>u. Scheme u @ ''://'' @ Host u @ Path u),
      ToLower = (\<lambda>s. s), TrimSpace = trimBlanks, ToASCII = Some,
      UnescapePath = Some, UnescapeVersion = Some, EscapeVersion = Inr,
      semverIsValid = (\<lambda>v. HasPrefix v ''v''),
      pathMatch = (\<lambda>glob name. (glob = name, None)),
      pathDir = (\<lambda>p. ''example.com/m/@v''), pathJoin = (\<lambda>d b. d @ ''/'' @ b),
      base64 = (\<lambda>s. s),
      TempDir = Inr ''/tmp/goproxy'',
      modRun = (\<lambda>operation modulePath moduleVersion. Inr sampleResult),
      cacherCache = (\<lambda>name. ErrCacheNotFound),
      cacherSetCache = (\<lambda>c. None),
      newTempCache = (\<lambda>file name. Inr (sampleCache file)),
      sumdbLookup = (\<lambda>modulePath moduleVersion. Inr [''example.com/m v1.2.3 h1:good'']),
      HashZip = (\<lambda>file. Inr ''h1:bad''), Hash1 = (\<lambda>file. Inr ''h1:mod''),
      NewRequest = (\<lambda>u. None), httpDo = (\<lambda>u. Timeout)\<rparr>"

text \<open>
  Two handlers after their first request: one with the default environment, which
  verifies every module, and one with \<open>GOSUMDB=off\<close>.
\<close>

definition sampleGoproxy :: goproxy where
  "sampleGoproxy = loadOnce sampleWorld (New [])"

definition unverifiedGoproxy :: goproxy where
  "unverifiedGoproxy = loadOnce sampleWorld (New [''GOSUMDB=off''])"

definition GET :: "string \<Rightarrow> request" where
  "GET p = \<lparr>Method = ''GET'', URLPath = p\<rparr>"



definition fullCache :: world where
  "fullCache = sampleWorld\<lparr>cacherSetCache := (\<lambda>c. Some ''no space left on device'')\<rparr>"


text \<open>A log upstream that answers with a given status code, status line and body.\<close>

definition upstreamAnswers :: "nat \<Rightarrow> string \<Rightarrow> string \<Rightarrow> world" where
  "upstreamAnswers code line b =
     sampleWorld\<lparr>httpDo := (\<lambda>u.
        Responded \<lparr>StatusCode = code, Status = line, ContentLength = [], Body = b,
                   ReadErr = None\<rparr>)\<rparr>"

text \<open>A log upstream that answers 503 and breaks off before its body is read.\<close>

definition truncatedUpstream :: world where
  "truncatedUpstream =
     sampleWorld\<lparr>httpDo := (\<lambda>u.
        Responded \<lparr>StatusCode = 503, Status = ''503 Service Unavailable'',
                   ContentLength = [], Body = [], ReadErr = Some ''unexpected EOF''\<rparr>)\<rparr>"

text \<open>
  A toolchain that resolves the tag \<open>kubernetes-1.17.0\<close> of \<open>k8s.io/api\<close> to the
  version \<open>v0.17.0\<close>; \<open>path.Dir\<close> answers for the names of that module.
\<close>

definition stagingToolchain :: world where
  "stagingToolchain =
     sampleWorld\<lparr>pathDir := (\<lambda>p. ''k8s.io/api/@v''),
                  modRun := (\<lambda>operation modulePath moduleVersion.
                    Inr (sampleResult\<lparr>Version := ''v0.17.0''\<rparr>))\<rparr>"

text \<open>
  \<open>url.Parse\<close> on \<open>sum.example.org/lookup/a:/b\<close>: the text before the first slash is
  not followed by a colon, so there is no scheme and no host, and the whole is the path;
  such a URL is written as its path.
\<close>

definition relativeReference :: world where
  "relativeReference =
     sampleWorld\<lparr>urlParse := (\<lambda>s.
                    if s = ''sum.example.org/lookup/a:/b''
                    then Inr \<lparr>Scheme = [], User = None, Host = [], Path = s\<rparr>
                    else urlParse sampleWorld s),
                  urlString := (\<lambda>u.
                    if Scheme u = [] \<and> Host u = [] then Path u
                    else urlString sampleWorld u)\<rparr>"

section \<open>Properties\<close>

subsection \<open>Strings and responses\<close>

lemma HasPrefix_single [simp]: "HasPrefix (c # cs) [d] = (c = d)"
  by (simp add: HasPrefix_def)

lemma HasPrefix_append: "HasPrefix s (p @ q) \<Longrightarrow> HasPrefix s p"
proof -
  assume "HasPrefix s (p @ q)"
  then have eq: "take (length p + length q) s = p @ q"
    by (simp add: HasPrefix_def)
  have "take (length p) s = take (length p) (take (length p + length q) s)"
    by (simp add: min_def)
  also have "\<dots> = p" by (simp only: eq) simp
  finally show ?thesis by (simp add: HasPrefix_def)
qed

lemma Contains_self: "Contains s s"
  by (cases s) (simp_all add: HasPrefix_def)

lemma stringSliceContains_iff: "stringSliceContains ss s = (s \<in> set ss)"
  by (induction ss) auto

lemma Split_not_Nil: "Split s sep \<noteq> []"
  by (induction s sep rule: Split.induct) (auto split: list.splits)

lemma Split_char_eq: "Split (d # cs) [d] = [] # Split cs [d]"
  by simp

lemma Split_char_neq:
  "c \<noteq> d \<Longrightarrow> Split (c # cs) [d] = (c # hd (Split cs [d])) # tl (Split cs [d])"
  using Split_not_Nil [of cs "[d]"] by (simp split: list.splits)

lemma Join_Cons_head: "Join ((c # x) # ys) sep = c # Join (x # ys) sep"
  by (cases ys) simp_all

lemma Join_Nil_head: "ys \<noteq> [] \<Longrightarrow> Join ([] # ys) sep = sep @ Join ys sep"
  by (cases ys) simp_all

lemma getenv_upd: "getenv (m(k \<mapsto> v)) k' = (if k' = k then v else getenv m k')"
  by (simp add: getenv_def)

lemma internal_status: "status (responseInternalServerError rw) = 500"
  by (simp add: responseInternalServerError_def responseString_def)

lemma untrusted_response:
  "status (untrusted v) = 404 \<and> body (untrusted v) = ''untrusted revision '' @ v \<and>
   maxAge (untrusted v) = Some 3600"
  by (simp add: untrusted_def responseNotFound_def responseString_def
      setResponseCacheControlHeader_def emptyResponse_def)

lemma serveCache_maxAge:
  "maxAge (serveCache w r cf c) = Some (if cf then 31536000 else 60)"
  by (simp add: serveCache_def setResponseCacheControlHeader_def)

lemma serveCache_status: "status (serveCache w r cf c) = 200"
  by (simp add: serveCache_def)

subsection \<open>The error classifier\<close>

lemma regModuleVersionNotFound_compiles: "Compile regModuleVersionNotFoundPattern \<noteq> None"
  by code_simp

text \<open>
  The pattern ends with \<open>|\<close>: its last alternative is empty, and the empty string is
  found in every message.
\<close>

lemma regModuleVersionNotFound_nullable: "nullable True regModuleVersionNotFound"
  by code_simp

lemma matchFrom_nullable: "nullable b re \<Longrightarrow> matchFrom b re ts"
  by (cases ts) simp_all

lemma MatchString_regModuleVersionNotFound: "MatchString regModuleVersionNotFound s"
  unfolding MatchString_def
  by (rule matchFrom_nullable) (rule regModuleVersionNotFound_nullable)

lemma respondModError_not_found:
  "fst (respondModError g err) =
     responseNotFound (setResponseCacheControlHeader emptyResponse 60) [err]"
  by (simp add: respondModError_def MatchString_regModuleVersionNotFound)

lemma respondModError_status: "status (fst (respondModError g err)) = 404"
  by (simp add: respondModError_not_found responseNotFound_def responseString_def)


lemma exit_status_no_signal: "\<not> hasNotFoundSignal ''exit status 1''"
  by code_simp

text \<open>
  C1. A driver or verification error whose message shows one of the not-found signals is
  answered 404 with \<open>max-age=60\<close>, and a message that shows none of them is answered
  500. The second half does not hold of the code: the message \<open>exit status 1\<close> shows no
  signal and is answered 404 with \<open>max-age=60\<close>.
\<close>

theorem C1_exit_status_answered_not_found:
  "\<not> hasNotFoundSignal ''exit status 1'' \<and>
   MatchString regModuleVersionNotFound ''exit status 1'' \<and>
   status (fst (respondModError g ''exit status 1'')) = 404 \<and>
   maxAge (fst (respondModError g ''exit status 1'')) = Some 60"
  by (simp add: respondModError_not_found exit_status_no_signal
      MatchString_regModuleVersionNotFound responseNotFound_def responseString_def
      setResponseCacheControlHeader_def emptyResponse_def)

subsection \<open>The sample handlers\<close>

lemma globsMatchPath_Nil: "globsMatchPath match [] target = False"
  by (subst globsMatchPath.simps) simp

lemma getenv_loadGOPROXY_other:
  "k \<noteq> ''GOPROXY'' \<Longrightarrow> getenv (loadGOPROXY t e) k = getenv e k"
  by (simp add: loadGOPROXY_def getenv_upd)

lemma getenv_loadGOSUMDB_other:
  "k \<noteq> ''GOSUMDB'' \<Longrightarrow> getenv (loadGOSUMDB t e) k = getenv e k"
  by (simp add: loadGOSUMDB_def getenv_upd Let_def)

lemma getenv_loadPrivate_other:
  "k \<noteq> key \<Longrightarrow> getenv (loadPrivate key t e) k = getenv e k"
  by (simp add: loadPrivate_def getenv_upd Let_def)

lemma getenv_loadGOSUMDB:
  "getenv (loadGOSUMDB t e) ''GOSUMDB'' =
     (if t (getenv e ''GOSUMDB'') = [] \<or> t (getenv e ''GOSUMDB'') = ''sum.golang.org''
      then ''sum.golang.org+033de0ae+Ac4zctda0e5eza+HJyk9SxEdh+s3Ux18htTTAD8OuAn8''
      else t (getenv e ''GOSUMDB''))"
  by (simp add: loadGOSUMDB_def getenv_upd Let_def)

lemma load_GOSUMDB:
  "getenv (goBinEnv (load t a g)) ''GOSUMDB'' =
     (if t (getenv (readGoBinEnv (goBinEnv g) (GoBinEnv g)) ''GOSUMDB'') = [] \<or>
         t (getenv (readGoBinEnv (goBinEnv g) (GoBinEnv g)) ''GOSUMDB'') = ''sum.golang.org''
      then ''sum.golang.org+033de0ae+Ac4zctda0e5eza+HJyk9SxEdh+s3Ux18htTTAD8OuAn8''
      else t (getenv (readGoBinEnv (goBinEnv g) (GoBinEnv g)) ''GOSUMDB''))"
  by (simp add: load_def getenv_loadPrivate_other getenv_loadGOSUMDB
      getenv_loadGOPROXY_other)


lemma trimBlanks_Nil: "trimBlanks [] = []"
  by (simp add: trimBlanks_def)

lemma trimBlanks_off: "trimBlanks ''off'' = ''off''"
  by (simp add: trimBlanks_def)

lemma sample_GOSUMDB:
  "getenv (goBinEnv sampleGoproxy) ''GOSUMDB'' =
     ''sum.golang.org+033de0ae+Ac4zctda0e5eza+HJyk9SxEdh+s3Ux18htTTAD8OuAn8''"
  by (simp add: sampleGoproxy_def loadOnce_def New_def load_GOSUMDB sampleWorld_def)
     (simp add: getenv_def trimBlanks_Nil)

lemma sample_GONOSUMDB: "getenv (goBinEnv sampleGoproxy) ''GONOSUMDB'' = []"
  by (simp add: sampleGoproxy_def loadOnce_def New_def load_def sampleWorld_def
      loadPrivate_def getenv_loadPrivate_other getenv_loadGOSUMDB_other
      getenv_loadGOPROXY_other getenv_upd Let_def trimBlanks_Nil)
     (simp add: getenv_def trimBlanks_Nil)

lemma sample_verifying: "verifying sampleGoproxy w modulePath"
  by (simp add: verifying_def sample_GOSUMDB sample_GONOSUMDB globsMatchPath_Nil)

lemma unverified_GOSUMDB: "getenv (goBinEnv unverifiedGoproxy) ''GOSUMDB'' = ''off''"
  by (simp add: unverifiedGoproxy_def loadOnce_def New_def load_GOSUMDB sampleWorld_def)
     (simp add: SplitN2_def getenv_def trimBlanks_off)

lemma unverified_not_verifying: "\<not> verifying unverifiedGoproxy w modulePath"
  by (simp add: verifying_def unverified_GOSUMDB)

lemma sample_MaxZIPCacheBytes: "MaxZIPCacheBytes sampleGoproxy = 0"
  by (simp add: sampleGoproxy_def loadOnce_def New_def load_def)

lemma sampleWorld_fields:
  "TempDir sampleWorld = Inr ''/tmp/goproxy''"
  "modRun sampleWorld operation modulePath moduleVersion = Inr sampleResult"
  "cacherCache sampleWorld name = ErrCacheNotFound"
  "cacherSetCache sampleWorld c = None"
  "newTempCache sampleWorld file name = Inr (sampleCache file)"
  "sumdbLookup sampleWorld modulePath moduleVersion = Inr [''example.com/m v1.2.3 h1:good'']"
  "HashZip sampleWorld file = Inr ''h1:bad''"
  "Hash1 sampleWorld file = Inr ''h1:mod''"
  "EscapeVersion sampleWorld v = Inr v"
  "semverIsValid sampleWorld v = HasPrefix v ''v''"
  "NewRequest sampleWorld u = None"
  "httpDo sampleWorld u = Timeout"
  "PathUnescape sampleWorld p = Some p"
  "pathClean sampleWorld p = p"
  "ToASCII sampleWorld h = Some h"
  "ToLower sampleWorld s = s"
  by (simp_all add: sampleWorld_def)

subsection \<open>Verification\<close>

lemma verify_off: "\<not> verifying g w mp \<Longrightarrow> verify g w mp mv mr = Inr []"
  by (simp add: verify_def)

lemma verify_Inl_status: "verify g w mp mv mr = Inl out \<Longrightarrow> status (fst out) \<noteq> 200"
  by (auto simp add: verify_def after_def respondModError_status untrusted_response
      internal_status split: if_splits sum.splits)



lemma verify_untrusted_zip:
  assumes "verifying g w modulePath"
    and "sumdbLookup w modulePath moduleVersion = Inr zipLines"
    and "HashZip w (Zip mr) = Inr zipHash"
    and "modulePath @ '' '' @ moduleVersion @ '' '' @ zipHash \<notin> set zipLines"
  shows "verify g w modulePath moduleVersion mr =
           Inl (untrusted moduleVersion,
                [Looked modulePath moduleVersion, HashedZip (Zip mr)])"
  using assms by (simp add: verify_def stringSliceContains_iff)

lemma verify_untrusted_gomod:
  assumes "verifying g w modulePath"
    and "sumdbLookup w modulePath moduleVersion = Inr zipLines"
    and "HashZip w (Zip mr) = Inr zipHash"
    and "modulePath @ '' '' @ moduleVersion @ '' '' @ zipHash \<in> set zipLines"
    and "sumdbLookup w modulePath (moduleVersion @ ''/go.mod'') = Inr goModLines"
    and "Hash1 w (GoMod mr) = Inr goModHash"
    and "modulePath @ '' '' @ moduleVersion @ ''/go.mod '' @ goModHash \<notin> set goModLines"
  shows "verify g w modulePath moduleVersion mr =
           Inl (untrusted moduleVersion,
                [Looked modulePath moduleVersion, HashedZip (Zip mr),
                 Looked modulePath (moduleVersion @ ''/go.mod''), HashedGoMod (GoMod mr)])"
  using assms by (simp add: verify_def stringSliceContains_iff)





lemma fetch_miss:
  assumes "cacherCache w name = ErrCacheNotFound"
    and "modRun w ''download'' mp mv = Inr mr"
  shows "fetch g w r mp mv name ext cf =
    (case verify g w mp mv mr of
       Inl out \<Rightarrow> after [CacheGet name, Ran ''download'' mp mv] out
     | Inr checks \<Rightarrow>
        (case newTempCache w (artifactFile mr ext) name of
           Inl err \<Rightarrow>
             (responseInternalServerError emptyResponse,
              [CacheGet name, Ran ''download'' mp mv] @ checks @ writeBack g w mr name ext @
              [Logged err])
         | Inr c \<Rightarrow>
             (serveCache w r cf c,
              [CacheGet name, Ran ''download'' mp mv] @ checks @
              writeBack g w mr name ext)))"
  using assms by (simp add: fetch_def)


text \<open>
  C2. On a cache miss with verification enabled, when the line of the zip hash is absent
  from the lines of the zip look-up, or the line of the go.mod hash is absent from the
  lines of the go.mod look-up, the answer is 404 with a body that contains
  \<open>untrusted revision\<close> and the version, \<open>max-age=3600\<close>, and \<open>SetCache\<close> is not called
  for any entry. The lines and the hashes are the ones the handler obtained: the go.mod
  look-up takes place once the zip line has been found.
\<close>

theorem C2_untrusted_revision:
  assumes miss: "cacherCache w name = ErrCacheNotFound"
    and download: "modRun w ''download'' modulePath moduleVersion = Inr mr"
    and enabled: "verifying g w modulePath"
    and zipLines: "sumdbLookup w modulePath moduleVersion = Inr zipLines"
    and zipHash: "HashZip w (Zip mr) = Inr zipHash"
    and absent:
      "modulePath @ '' '' @ moduleVersion @ '' '' @ zipHash \<notin> set zipLines \<or>
       (sumdbLookup w modulePath (moduleVersion @ ''/go.mod'') = Inr goModLines \<and>
        Hash1 w (GoMod mr) = Inr goModHash \<and>
        modulePath @ '' '' @ moduleVersion @ ''/go.mod '' @ goModHash \<notin> set goModLines)"
  shows
    "status (fst (fetch g w r modulePath moduleVersion name nameExt cachingForever)) = 404 \<and>
     Contains (body (fst (fetch g w r modulePath moduleVersion name nameExt cachingForever)))
       (''untrusted revision '' @ moduleVersion) \<and>
     maxAge (fst (fetch g w r modulePath moduleVersion name nameExt cachingForever)) =
       Some 3600 \<and>
     (\<forall>n. SetCache n \<notin>
            set (snd (fetch g w r modulePath moduleVersion name nameExt cachingForever)))"
proof (cases "modulePath @ '' '' @ moduleVersion @ '' '' @ zipHash \<in> set zipLines")
  case False
  have "verify g w modulePath moduleVersion mr =
          Inl (untrusted moduleVersion,
               [Looked modulePath moduleVersion, HashedZip (Zip mr)])"
    using enabled zipLines zipHash False by (rule verify_untrusted_zip)
  then show ?thesis
    using miss download
    by (simp add: fetch_def after_def untrusted_response Contains_self)
next
  case True
  with absent have gomod:
    "sumdbLookup w modulePath (moduleVersion @ ''/go.mod'') = Inr goModLines"
    "Hash1 w (GoMod mr) = Inr goModHash"
    "modulePath @ '' '' @ moduleVersion @ ''/go.mod '' @ goModHash \<notin> set goModLines"
    by auto
  have "verify g w modulePath moduleVersion mr =
          Inl (untrusted moduleVersion,
               [Looked modulePath moduleVersion, HashedZip (Zip mr),
                Looked modulePath (moduleVersion @ ''/go.mod''), HashedGoMod (GoMod mr)])"
    using enabled zipLines zipHash True gomod by (rule verify_untrusted_gomod)
  then show ?thesis
    using miss download
    by (simp add: fetch_def after_def untrusted_response Contains_self)
qed

text \<open>Scenario 3 of the spec: the hash of the zip is not among the lines of the log.\<close>

theorem C2_untrusted_revision_witness:
  "cacherCache sampleWorld ''example.com/m/@v/v1.2.3.zip'' = ErrCacheNotFound \<and>
   modRun sampleWorld ''download'' ''example.com/m'' ''v1.2.3'' = Inr sampleResult \<and>
   verifying sampleGoproxy sampleWorld ''example.com/m'' \<and>
   sumdbLookup sampleWorld ''example.com/m'' ''v1.2.3'' =
     Inr [''example.com/m v1.2.3 h1:good''] \<and>
   HashZip sampleWorld (Zip sampleResult) = Inr ''h1:bad'' \<and>
   ''example.com/m'' @ '' '' @ ''v1.2.3'' @ '' '' @ ''h1:bad'' \<notin>
     set [''example.com/m v1.2.3 h1:good''] \<and>
   status (fst (fetch sampleGoproxy sampleWorld (GET ''/example.com/m/@v/v1.2.3.zip'')
     ''example.com/m'' ''v1.2.3'' ''example.com/m/@v/v1.2.3.zip'' ''.zip'' True)) = 404 \<and>
   Contains
     (body (fst (fetch sampleGoproxy sampleWorld (GET ''/example.com/m/@v/v1.2.3.zip'')
        ''example.com/m'' ''v1.2.3'' ''example.com/m/@v/v1.2.3.zip'' ''.zip'' True)))
     (''untrusted revision '' @ ''v1.2.3'') \<and>
   maxAge (fst (fetch sampleGoproxy sampleWorld (GET ''/example.com/m/@v/v1.2.3.zip'')
     ''example.com/m'' ''v1.2.3'' ''example.com/m/@v/v1.2.3.zip'' ''.zip'' True)) =
     Some 3600 \<and>
   (\<forall>n. SetCache n \<notin>
      set (snd (fetch sampleGoproxy sampleWorld (GET ''/example.com/m/@v/v1.2.3.zip'')
        ''example.com/m'' ''v1.2.3'' ''example.com/m/@v/v1.2.3.zip'' ''.zip'' True)))"
proof -
  have h1: "cacherCache sampleWorld ''example.com/m/@v/v1.2.3.zip'' = ErrCacheNotFound"
    by (simp add: sampleWorld_fields)
  have h2: "modRun sampleWorld ''download'' ''example.com/m'' ''v1.2.3'' = Inr sampleResult"
    by (simp add: sampleWorld_fields)
  have h3: "verifying sampleGoproxy sampleWorld ''example.com/m''"
    by (rule sample_verifying)
  have h4: "sumdbLookup sampleWorld ''example.com/m'' ''v1.2.3'' =
              Inr [''example.com/m v1.2.3 h1:good'']"
    by (simp add: sampleWorld_fields)
  have h5: "HashZip sampleWorld (Zip sampleResult) = Inr ''h1:bad''"
    by (simp add: sampleWorld_fields)
  have h6: "''example.com/m'' @ '' '' @ ''v1.2.3'' @ '' '' @ ''h1:bad'' \<notin>
              set [''example.com/m v1.2.3 h1:good'']"
    by simp
  from h6 have h6':
    "''example.com/m'' @ '' '' @ ''v1.2.3'' @ '' '' @ ''h1:bad'' \<notin>
       set [''example.com/m v1.2.3 h1:good''] \<or>
     (sumdbLookup sampleWorld ''example.com/m'' (''v1.2.3'' @ ''/go.mod'') = Inr [] \<and>
      Hash1 sampleWorld (GoMod sampleResult) = Inr [] \<and>
      ''example.com/m'' @ '' '' @ ''v1.2.3'' @ ''/go.mod '' @ [] \<notin> set [])" ..
  show ?thesis
    using h1 h2 h3 h4 h5 h6 C2_untrusted_revision [OF h1 h2 h3 h4 h5 h6'] by blast
qed

subsection \<open>Cache-Control of a served artifact\<close>

lemma fetch_maxAge:
  assumes "status (fst (fetch g w r mp mv name ext cf)) = 200"
  shows "maxAge (fst (fetch g w r mp mv name ext cf)) = Some (if cf then 31536000 else 60)"
proof (cases "cacherCache w name")
  case (Hit c)
  then show ?thesis by (simp add: fetch_def serveCache_maxAge)
next
  case (CacheFailure err)
  with assms show ?thesis by (simp add: fetch_def internal_status)
next
  case ErrCacheNotFound
  show ?thesis
  proof (cases "modRun w ''download'' mp mv")
    case (Inl err)
    with assms ErrCacheNotFound show ?thesis
      by (simp add: fetch_def after_def respondModError_status)
  next
    case (Inr mr)
    note f = fetch_miss [OF ErrCacheNotFound Inr, of g r ext cf]
    show ?thesis
    proof (cases "verify g w mp mv mr")
      case (Inl out)
      with assms verify_Inl_status [OF Inl] show ?thesis
        by (simp add: f after_def)
    next
      case checks: (Inr checks)
      with assms show ?thesis
        by (cases "newTempCache w (artifactFile mr ext) name")
           (simp_all add: f internal_status serveCache_maxAge)
    qed
  qed
qed

lemma resolve_maxAge:
  assumes "\<not> isList"
    and "status (fst (resolve g w r name isLatest isList mp ext v)) = 200"
  shows "maxAge (fst (resolve g w r name isLatest isList mp ext v)) =
     Some (if \<not> isLatest \<and> semverIsValid w (stagingVersion mp v) then 31536000 else 60)"
proof (cases "TempDir w")
  case (Inl err)
  with assms show ?thesis by (simp add: resolve_def internal_status)
next
  case (Inr root)
  show ?thesis
  proof (cases "isLatest \<or> \<not> semverIsValid w (stagingVersion mp v)")
    case False
    with assms Inr have "resolve g w r name isLatest isList mp ext v =
        fetch g w r mp (stagingVersion mp v) name ext True"
      by (simp add: resolve_def)
    with assms False fetch_maxAge [of g w r mp "stagingVersion mp v" name ext True]
    show ?thesis by simp
  next
    case True
    show ?thesis
    proof (cases "modRun w (if isLatest then ''latest'' else ''lookup'') mp
                    (stagingVersion mp v)")
      case (Inl err)
      with assms Inr True show ?thesis
        by (simp add: resolve_def after_def respondModError_status)
    next
      case mr: (Inr mr)
      show ?thesis
      proof (cases "EscapeVersion w (Version mr)")
        case (Inl err)
        with assms Inr True mr show ?thesis
          by (simp add: resolve_def internal_status)
      next
        case esc: (Inr escaped)
        with assms Inr True mr
        have "fst (resolve g w r name isLatest isList mp ext v) =
              fst (fetch g w r mp (Version mr)
                     (pathJoin w (pathDir w name) (escaped @ ext)) ext False)"
          by (simp add: resolve_def after_def)
        with assms True
          fetch_maxAge [of g w r mp "Version mr"
            "pathJoin w (pathDir w name) (escaped @ ext)" ext False]
        show ?thesis by auto
      qed
    qed
  qed
qed

lemma stagingVersion_v01:
  assumes "isStagingRepo mp" and "HasPrefix v ''v0.1''"
  shows "stagingVersion mp v = ''kubernetes-1.'' @ drop 3 v"
proof -
  have "HasPrefix v (''v0.'' @ ''1'')" using assms(2) by simp
  then have "HasPrefix v ''v0.''" by (rule HasPrefix_append)
  with assms show ?thesis
    by (simp add: stagingVersion_def TrimPrefix_def numeral_3_eq_3)
qed

text \<open>
  C4, as the code has it. A FetchArtifact response that succeeds carries
  \<open>max-age=31536000\<close> when the request is not \<open>/@latest\<close> and the version the
  toolchain is asked for is valid semver, and \<open>max-age=60\<close> otherwise. The version the
  toolchain is asked for is the one the request names, except for a module of
  \<open>stagingRepos\<close> and a version that starts with \<open>v0.1\<close>: there it is
  \<open>kubernetes-1.\<close> followed by the named version without its first three characters
  \<open>v0.\<close> (lines 495-499).
\<close>

theorem C4_cache_control:
  "(\<not> isList \<and>
    status (fst (resolve g w r name isLatest isList modulePath nameExt requested)) = 200 \<longrightarrow>
    maxAge (fst (resolve g w r name isLatest isList modulePath nameExt requested)) =
      Some (if \<not> isLatest \<and> semverIsValid w (stagingVersion modulePath requested)
            then 31536000 else 60)) \<and>
   stagingVersion modulePath requested =
     (if modulePath \<in> set stagingRepos \<and> HasPrefix requested ''v0.1''
      then ''kubernetes-1.'' @ drop 3 requested else requested)"
proof -
  have "stagingVersion modulePath requested =
     (if modulePath \<in> set stagingRepos \<and> HasPrefix requested ''v0.1''
      then ''kubernetes-1.'' @ drop 3 requested else requested)"
  proof (cases "modulePath \<in> set stagingRepos \<and> HasPrefix requested ''v0.1''")
    case True
    then have "isStagingRepo modulePath"
      by (simp add: isStagingRepo_def stringSliceContains_iff)
    from stagingVersion_v01 [OF this] True show ?thesis by simp
  next
    case False
    then show ?thesis
      by (auto simp add: stagingVersion_def isStagingRepo_def stringSliceContains_iff)
  qed
  with resolve_maxAge [of isList g w r name isLatest modulePath nameExt requested]
  show ?thesis by blast
qed

lemma fetch_unverified_sample:
  "fst (fetch unverifiedGoproxy sampleWorld r mp mv name ext cf) =
     serveCache sampleWorld r cf (sampleCache (artifactFile sampleResult ext))"
  by (simp add: fetch_miss [of sampleWorld name mp mv sampleResult] sampleWorld_fields
      verify_off [OF unverified_not_verifying])

text \<open>
  Scenario 2 of the spec without verification, and the same module asked for through
  \<open>/@latest\<close>.
\<close>

theorem C4_cache_control_witness:
  "status (fst (resolve unverifiedGoproxy sampleWorld (GET ''/example.com/m/@v/v1.2.3.info'')
      ''example.com/m/@v/v1.2.3.info'' False False ''example.com/m'' ''.info'' ''v1.2.3'')) =
     200 \<and>
   maxAge (fst (resolve unverifiedGoproxy sampleWorld (GET ''/example.com/m/@v/v1.2.3.info'')
      ''example.com/m/@v/v1.2.3.info'' False False ''example.com/m'' ''.info'' ''v1.2.3'')) =
     Some 31536000 \<and>
   status (fst (resolve unverifiedGoproxy sampleWorld (GET ''/example.com/m/@latest'')
      ''example.com/m/@v/latest.info'' True False ''example.com/m'' ''.info'' ''latest'')) =
     200 \<and>
   maxAge (fst (resolve unverifiedGoproxy sampleWorld (GET ''/example.com/m/@latest'')
      ''example.com/m/@v/latest.info'' True False ''example.com/m'' ''.info'' ''latest'')) =
     Some 60 \<and>
   stagingVersion ''k8s.io/api'' ''v0.17.0'' = ''kubernetes-1.17.0''"
proof -
  have sv: "stagingVersion ''example.com/m'' ''v1.2.3'' = ''v1.2.3''"
    by (simp add: stagingVersion_def HasPrefix_def)
  have valid: "semverIsValid sampleWorld ''v1.2.3''"
    by (simp add: sampleWorld_fields HasPrefix_def)
  have h1: "status (fst (resolve unverifiedGoproxy sampleWorld
      (GET ''/example.com/m/@v/v1.2.3.info'')
      ''example.com/m/@v/v1.2.3.info'' False False ''example.com/m'' ''.info'' ''v1.2.3'')) =
     200"
    by (simp add: resolve_def sv valid sampleWorld_fields fetch_unverified_sample
        serveCache_status)
  have h2: "status (fst (resolve unverifiedGoproxy sampleWorld (GET ''/example.com/m/@latest'')
      ''example.com/m/@v/latest.info'' True False ''example.com/m'' ''.info'' ''latest'')) =
     200"
    by (simp add: resolve_def sampleWorld_fields after_def fetch_unverified_sample
        serveCache_status)
  have h3: "''k8s.io/api'' \<in> set stagingRepos \<and> HasPrefix ''v0.17.0'' ''v0.1''"
    by (simp add: stagingRepos_def HasPrefix_def)
  show ?thesis
    using h1 h2 h3 sv valid
      C4_cache_control [where g = unverifiedGoproxy and w = sampleWorld
        and r = "GET ''/example.com/m/@v/v1.2.3.info''" and modulePath = "''example.com/m''"
        and name = "''example.com/m/@v/v1.2.3.info''" and nameExt = "''.info''"
        and isList = False and isLatest = False and requested = "''v1.2.3''"]
      C4_cache_control [where g = unverifiedGoproxy and w = sampleWorld
        and r = "GET ''/example.com/m/@latest''" and modulePath = "''example.com/m''"
        and name = "''example.com/m/@v/latest.info''" and nameExt = "''.info''"
        and isList = False and isLatest = True and requested = "''latest''"]
      C4_cache_control [where modulePath = "''k8s.io/api''" and requested = "''v0.17.0''"
        and isList = True]
    by simp
qed

text \<open>
  The claim C4 as it is worded fails. The request \<open>GET /k8s.io/api/@v/v0.17.0.info\<close>
  names a valid semver version directly; the handler asks the toolchain to look up
  \<open>kubernetes-1.17.0\<close>, which is not valid semver, and with verification off it serves
  the file with \<open>max-age=60\<close>.
\<close>

theorem C4_counterexample:
  "semverIsValid stagingToolchain ''v0.17.0'' \<and>
   status (fst (fst (ServeHTTP (New [''GOSUMDB=off'']) stagingToolchain
      (GET ''/k8s.io/api/@v/v0.17.0.info'')))) = 200 \<and>
   maxAge (fst (fst (ServeHTTP (New [''GOSUMDB=off'']) stagingToolchain
      (GET ''/k8s.io/api/@v/v0.17.0.info'')))) = Some 60 \<and>
   runs (snd (fst (ServeHTTP (New [''GOSUMDB=off'']) stagingToolchain
      (GET ''/k8s.io/api/@v/v0.17.0.info'')))) =
     [(''lookup'', ''k8s.io/api'', ''kubernetes-1.17.0''),
      (''download'', ''k8s.io/api'', ''v0.17.0'')]"
  by code_simp

subsection \<open>When a download is verified\<close>













subsection \<open>The write-back\<close>

text \<open>
  C10, as the code has it. \<open>SetCache\<close> is called with the \<open>.zip\<close> entry if and only if
  every earlier step of the write-back succeeded (the \<open>.info\<close> and \<open>.mod\<close> entries were
  created and stored, the \<open>.zip\<close> entry was created) and \<open>MaxZIPCacheBytes\<close> is zero or
  the size of the zip is at most \<open>MaxZIPCacheBytes\<close>. Whether it is called with the
  \<open>.info\<close> and the \<open>.mod\<close> entry does not depend on \<open>MaxZIPCacheBytes\<close> or on a size.
\<close>

theorem C10_zip_write_gate:
  "((SetCache (TrimSuffix name nameExt @ ''.zip'') \<in> set (writeBack g w mr name nameExt)) =
    (\<exists>infoCache modCache zipCache.
       newTempCache w (Info mr) (TrimSuffix name nameExt @ ''.info'') = Inr infoCache \<and>
       cacherSetCache w infoCache = None \<and>
       newTempCache w (GoMod mr) (TrimSuffix name nameExt @ ''.mod'') = Inr modCache \<and>
       cacherSetCache w modCache = None \<and>
       newTempCache w (Zip mr) (TrimSuffix name nameExt @ ''.zip'') = Inr zipCache \<and>
       (MaxZIPCacheBytes g = 0 \<or> Size zipCache \<le> MaxZIPCacheBytes g))) \<and>
   ((SetCache (TrimSuffix name nameExt @ ''.info'') \<in> set (writeBack g w mr name nameExt)) =
    (\<exists>infoCache.
       newTempCache w (Info mr) (TrimSuffix name nameExt @ ''.info'') = Inr infoCache)) \<and>
   ((SetCache (TrimSuffix name nameExt @ ''.mod'') \<in> set (writeBack g w mr name nameExt)) =
    (\<exists>infoCache modCache.
       newTempCache w (Info mr) (TrimSuffix name nameExt @ ''.info'') = Inr infoCache \<and>
       cacherSetCache w infoCache = None \<and>
       newTempCache w (GoMod mr) (TrimSuffix name nameExt @ ''.mod'') = Inr modCache))"
  by (simp add: writeBack_def split: sum.splits option.splits)

text \<open>In the sample world every step succeeds and the limit is zero: the zip is stored.\<close>

theorem C10_zip_write_gate_witness:
  "MaxZIPCacheBytes sampleGoproxy = 0 \<and>
   SetCache ''example.com/m/@v/v1.2.3.zip'' \<in>
     set (writeBack sampleGoproxy sampleWorld sampleResult
            ''example.com/m/@v/v1.2.3.info'' ''.info'')"
  using C10_zip_write_gate [of "''example.com/m/@v/v1.2.3.info''" "''.info''"
      sampleGoproxy sampleWorld sampleResult]
  by (simp add: sampleWorld_fields sample_MaxZIPCacheBytes TrimSuffix_def HasSuffix_def)

text \<open>
  The claim C10 as it is worded fails: with \<open>MaxZIPCacheBytes\<close> zero and a cache backend
  that refuses the \<open>.info\<close> entry, the write-back returns before it comes to the zip.
\<close>

theorem C10_counterexample:
  "MaxZIPCacheBytes sampleGoproxy = 0 \<and>
   SetCache ''example.com/m/@v/v1.2.3.zip'' \<notin>
     set (writeBack sampleGoproxy fullCache sampleResult
            ''example.com/m/@v/v1.2.3.info'' ''.info'')"
  by (simp add: sample_MaxZIPCacheBytes writeBack_def fullCache_def sampleWorld_def)

subsection \<open>The staging repositories\<close>






subsection \<open>GOPROXY after load\<close>

lemma proxiesLoop_uptoSentinel:
  "proxiesLoop t ps acc = acc @ uptoSentinel (filter (\<lambda>p. p \<noteq> []) (map t ps))"
  by (induction ps arbitrary: acc) simp_all

lemma getenv_loadGOPROXY:
  "getenv (loadGOPROXY t e) ''GOPROXY'' = normalizedGOPROXY t (getenv e ''GOPROXY'')"
  by (simp add: loadGOPROXY_def normalizedGOPROXY_def proxiesLoop_uptoSentinel getenv_upd)

text \<open>
  C6. After \<open>load\<close>, \<open>GOPROXY\<close> is the normal form of the value it had in the
  environment read from \<open>GoBinEnv\<close>: the trimmed non-empty entries up to and including
  the first \<open>direct\<close> or \<open>off\<close>, joined by commas; the default
  \<open>https://proxy.golang.org,direct\<close> when no entry remains of an empty value, and
  \<open>off\<close> when no entry remains of a value that was not empty.
\<close>

theorem C6_GOPROXY_normalized:
  "getenv (goBinEnv (load trimSpace toASCII g)) ''GOPROXY'' =
     normalizedGOPROXY trimSpace (getenv (readGoBinEnv (goBinEnv g) (GoBinEnv g)) ''GOPROXY'')"
  by (simp add: load_def getenv_loadPrivate_other getenv_loadGOSUMDB_other
      getenv_loadGOPROXY)

lemma normalizedGOPROXY_samples:
  "normalizedGOPROXY trimBlanks '' https://a.example ,, direct ,https://b.example'' =
     ''https://a.example,direct''"
  "normalizedGOPROXY trimBlanks [] = ''https://proxy.golang.org,direct''"
  "normalizedGOPROXY trimBlanks '' , '' = ''off''"
  by code_simp+

theorem C6_GOPROXY_normalized_witness:
  "getenv (goBinEnv (load trimBlanks Some
      (New [''GOPROXY= https://a.example ,, direct ,https://b.example''])))
     ''GOPROXY'' = ''https://a.example,direct'' \<and>
   getenv (goBinEnv (load trimBlanks Some (New []))) ''GOPROXY'' =
     ''https://proxy.golang.org,direct'' \<and>
   getenv (goBinEnv (load trimBlanks Some (New [''GOPROXY= , '']))) ''GOPROXY'' = ''off''"
  using C6_GOPROXY_normalized [of trimBlanks Some
      "New [''GOPROXY= https://a.example ,, direct ,https://b.example'']"]
    C6_GOPROXY_normalized [of trimBlanks Some "New []"]
    C6_GOPROXY_normalized [of trimBlanks Some "New [''GOPROXY= , '']"]
  by (simp add: New_def SplitN2_def getenv_def normalizedGOPROXY_samples)

subsection \<open>Glob lists\<close>

lemma walk_spec:
  "(snd (walk target n) = 0) = (Suc n \<le> length (Split target ''/'')) \<and>
   (snd (walk target n) = 0 \<longrightarrow> fst (walk target n) = firstElements (Suc n) target)"
proof (induction target arbitrary: n)
  case Nil
  show ?case by (simp add: firstElements_def)
next
  case (Cons c cs)
  show ?case
  proof (cases "c = CHR ''/''")
    case True
    show ?thesis
    proof (cases n)
      case 0
      with True show ?thesis by (simp add: firstElements_def Split_char_eq)
    next
      case (Suc k)
      have ne: "take (Suc k) (Split cs ''/'') \<noteq> []"
        using Split_not_Nil [of cs "''/''"] by (cases "Split cs ''/''") simp_all
      from Cons.IH [of k] True Suc ne show ?thesis
        by (simp add: firstElements_def Split_char_eq Join_Nil_head case_prod_beta)
    qed
  next
    case False
    obtain x xs where sp: "Split cs ''/'' = x # xs"
      using Split_not_Nil [of cs "''/''"] by (cases "Split cs ''/''") auto
    from Cons.IH [of n] False sp show ?thesis
      by (simp add: firstElements_def Split_char_neq Join_Cons_head case_prod_beta)
  qed
qed

lemma Split_comma_unfold:
  "globs \<noteq> [] \<Longrightarrow>
   Split globs '','' =
     (case IndexByte globs (CHR '','') of
        Some i \<Rightarrow> take i globs # Split (drop (Suc i) globs) '',''
      | None \<Rightarrow> [globs])"
proof (induction globs)
  case Nil
  then show ?case by simp
next
  case (Cons c cs)
  show ?case
  proof (cases "c = CHR '',''")
    case True
    then show ?thesis by (simp add: Split_char_eq)
  next
    case False
    show ?thesis
    proof (cases "cs = []")
      case True
      with False show ?thesis by simp
    next
      case ne: False
      from Cons.IH [OF ne] False show ?thesis
        by (simp add: Split_char_neq split: option.splits)
    qed
  qed
qed

lemma globsMatchPath_step:
  assumes "globs \<noteq> []"
  shows "globsMatchPath match globs target =
     (case IndexByte globs (CHR '','') of
        Some i \<Rightarrow>
          (globMatches match target (take i globs) \<or>
           globsMatchPath match (drop (Suc i) globs) target)
      | None \<Rightarrow> globMatches match target globs)"
proof (cases "IndexByte globs (CHR '','')")
  case None
  note w = walk_spec [of target "Count globs (CHR ''/'')"]
  have "globsMatchPath match globs target =
          (if 0 < snd (walk target (Count globs (CHR ''/''))) then False
           else fst (match globs (fst (walk target (Count globs (CHR ''/''))))))"
    using assms None
    by (subst globsMatchPath.simps) (simp add: Let_def globsMatchPath_Nil)
  with assms None w show ?thesis
    by (auto simp add: globMatches_def)
next
  case (Some i)
  note w = walk_spec [of target "Count (take i globs) (CHR ''/'')"]
  have "globsMatchPath match globs target =
          (if take i globs = [] then globsMatchPath match (drop (Suc i) globs) target
           else if 0 < snd (walk target (Count (take i globs) (CHR ''/'')))
             then globsMatchPath match (drop (Suc i) globs) target
           else if fst (match (take i globs)
                          (fst (walk target (Count (take i globs) (CHR ''/'')))))
             then True
           else globsMatchPath match (drop (Suc i) globs) target)"
    using assms Some by (subst globsMatchPath.simps) (simp add: Let_def)
  with Some w show ?thesis
    by (auto simp add: globMatches_def)
qed

text \<open>
  C7. \<open>globsMatchPath\<close> returns true if and only if some non-empty pattern of the
  comma-separated list, with \<open>N\<close> slashes, matches the first \<open>N + 1\<close> path elements of
  the target; a target with fewer elements does not match it, and an empty pattern is
  passed over. The error \<open>path.Match\<close> gives for a malformed pattern is dropped.
\<close>

theorem C7_globsMatchPath_spec:
  "globsMatchPath match globs target = globsMatchPathSpec match globs target"
proof (induction globs rule: length_induct)
  case (1 globs)
  show ?case
  proof (cases "globs = []")
    case True
    then show ?thesis
      by (simp add: globsMatchPath_Nil globsMatchPathSpec_def globMatches_def)
  next
    case False
    show ?thesis
    proof (cases "IndexByte globs (CHR '','')")
      case None
      with False show ?thesis
        by (simp add: globsMatchPath_step globsMatchPathSpec_def Split_comma_unfold)
    next
      case (Some i)
      have "length (drop (Suc i) globs) < length globs"
        using False by (cases globs) simp_all
      with 1 have ih: "globsMatchPath match (drop (Suc i) globs) target =
                       globsMatchPathSpec match (drop (Suc i) globs) target"
        by blast
      from False Some show ?thesis
        by (simp add: globsMatchPath_step ih globsMatchPathSpec_def Split_comma_unfold)
    qed
  qed
qed

lemma globsMatchPathSpec_samples:
  "globsMatchPathSpec (pathMatch sampleWorld) ''example.com/private,,corp.example''
     ''corp.example/team/mod''"
  "\<not> globsMatchPathSpec (pathMatch sampleWorld) ''corp.example/team/mod''
       ''corp.example/team''"
  "\<not> globsMatchPathSpec (pathMatch sampleWorld) [] ''corp.example/team''"
  by code_simp+

text \<open>
  With a matcher that compares for equality: the third entry of a list with an empty
  second one matches the first element of the target, and a pattern with two slashes does
  not match a target of two elements.
\<close>

theorem C7_globsMatchPath_spec_witness:
  "globsMatchPath (pathMatch sampleWorld) ''example.com/private,,corp.example''
     ''corp.example/team/mod'' \<and>
   \<not> globsMatchPath (pathMatch sampleWorld) ''corp.example/team/mod'' ''corp.example/team'' \<and>
   \<not> globsMatchPath (pathMatch sampleWorld) [] ''corp.example/team''"
  using C7_globsMatchPath_spec [of "pathMatch sampleWorld"
      "''example.com/private,,corp.example''" "''corp.example/team/mod''"]
    C7_globsMatchPath_spec [of "pathMatch sampleWorld" "''corp.example/team/mod''"
      "''corp.example/team''"]
    C7_globsMatchPath_spec [of "pathMatch sampleWorld" "[]" "''corp.example/team''"]
  by (simp add: globsMatchPathSpec_samples)

subsection \<open>The log reverse-proxy\<close>

text \<open>
  C8, as the code has it. Once the upstream request is made: a timeout gives 502; an
  answer with a status other than 200 whose body cannot be read gives 500, and the error
  is logged; with a body that was read, a status of 400, 404 or 410 gives 404 with the
  upstream body as the message, \<open>max-age=60\<close> for 404 and \<open>max-age=3600\<close> for 400 and
  410, and any other status but 200 gives 502, and the redacted URL, the status line and
  the body are logged.
\<close>

theorem C8_upstream_failures:
  assumes "NewRequest w (urlString w sumdbURL) = None"
  shows
    "(httpDo w (urlString w sumdbURL) = Timeout \<longrightarrow>
        status (fst (sumdbFetch g w sumdbURL cachingForever ctype)) = 502) \<and>
     (httpDo w (urlString w sumdbURL) = Responded res \<and> StatusCode res \<noteq> 200 \<and>
      ReadErr res = Some err \<longrightarrow>
        status (fst (sumdbFetch g w sumdbURL cachingForever ctype)) = 500 \<and>
        Logged err \<in> set (snd (sumdbFetch g w sumdbURL cachingForever ctype))) \<and>
     (httpDo w (urlString w sumdbURL) = Responded res \<and> ReadErr res = None \<and>
      (StatusCode res = 400 \<or> StatusCode res = 404 \<or> StatusCode res = 410) \<longrightarrow>
        status (fst (sumdbFetch g w sumdbURL cachingForever ctype)) = 404 \<and>
        body (fst (sumdbFetch g w sumdbURL cachingForever ctype)) = Body res \<and>
        maxAge (fst (sumdbFetch g w sumdbURL cachingForever ctype)) =
          Some (if StatusCode res = 404 then 60 else 3600)) \<and>
     (httpDo w (urlString w sumdbURL) = Responded res \<and> ReadErr res = None \<and>
      StatusCode res \<noteq> 200 \<and> StatusCode res \<noteq> 400 \<and> StatusCode res \<noteq> 404 \<and>
      StatusCode res \<noteq> 410 \<longrightarrow>
        status (fst (sumdbFetch g w sumdbURL cachingForever ctype)) = 502 \<and>
        Logged (''GET '' @ redactedURL w sumdbURL @ '': '' @ Status res @ '': '' @ Body res)
          \<in> set (snd (sumdbFetch g w sumdbURL cachingForever ctype)))"
  using assms
  by (simp add: sumdbFetch_def responseBadGateway_def responseNotFound_def
      responseInternalServerError_def responseString_def
      setResponseCacheControlHeader_def emptyResponse_def)

lemma upstreamAnswers_fields:
  "NewRequest (upstreamAnswers code line b) u = None"
  "httpDo (upstreamAnswers code line b) u =
     Responded \<lparr>StatusCode = code, Status = line, ContentLength = [], Body = b,
                ReadErr = None\<rparr>"
  "urlString (upstreamAnswers code line b) sampleURL = ''https://sum.example.org/lookup/x''"
  "urlString sampleWorld sampleURL = ''https://sum.example.org/lookup/x''"
  by (simp_all add: upstreamAnswers_def sampleWorld_def sampleURL_def)

text \<open>An upstream that times out, one that answers 410 and one that answers 503.\<close>

theorem C8_upstream_failures_witness:
  "NewRequest sampleWorld (urlString sampleWorld sampleURL) = None \<and>
   httpDo sampleWorld (urlString sampleWorld sampleURL) = Timeout \<and>
   status (fst (sumdbFetch sampleGoproxy sampleWorld sampleURL True
      ''text/plain; charset=utf-8'')) = 502 \<and>
   status (fst (sumdbFetch sampleGoproxy (upstreamAnswers 410 ''410 Gone'' ''gone'') sampleURL
      True ''text/plain; charset=utf-8'')) = 404 \<and>
   body (fst (sumdbFetch sampleGoproxy (upstreamAnswers 410 ''410 Gone'' ''gone'') sampleURL
      True ''text/plain; charset=utf-8'')) = ''gone'' \<and>
   maxAge (fst (sumdbFetch sampleGoproxy (upstreamAnswers 410 ''410 Gone'' ''gone'') sampleURL
      True ''text/plain; charset=utf-8'')) = Some 3600 \<and>
   status (fst (sumdbFetch sampleGoproxy
      (upstreamAnswers 503 ''503 Service Unavailable'' ''busy'') sampleURL
      True ''text/plain; charset=utf-8'')) = 502 \<and>
   Logged ''GET https://sum.example.org/lookup/x: 503 Service Unavailable: busy'' \<in>
     set (snd (sumdbFetch sampleGoproxy
       (upstreamAnswers 503 ''503 Service Unavailable'' ''busy'') sampleURL
       True ''text/plain; charset=utf-8''))"
proof -
  have h1: "NewRequest sampleWorld (urlString sampleWorld sampleURL) = None"
    by (simp add: sampleWorld_fields)
  have h2: "httpDo sampleWorld (urlString sampleWorld sampleURL) = Timeout"
    by (simp add: sampleWorld_fields)
  have h3: "NewRequest (upstreamAnswers code line b)
              (urlString (upstreamAnswers code line b) sampleURL) = None" for code line b
    by (simp add: upstreamAnswers_fields)
  have red: "redactedURL (upstreamAnswers code line b) sampleURL =
               ''https://sum.example.org/lookup/x''" for code line b
    by (simp add: redactedURL_def upstreamAnswers_fields)
       (simp add: sampleURL_def upstreamAnswers_def sampleWorld_def)
  show ?thesis
    using h1 h2
      C8_upstream_failures [OF h1, of sampleGoproxy True "''text/plain; charset=utf-8''"]
      C8_upstream_failures [OF h3 [of 410 "''410 Gone''" "''gone''"],
        where g = sampleGoproxy and cachingForever = True
          and ctype = "''text/plain; charset=utf-8''"
          and res = "\<lparr>StatusCode = 410, Status = ''410 Gone'', ContentLength = [],
                       Body = ''gone'', ReadErr = None\<rparr>"]
      C8_upstream_failures [OF h3 [of 503 "''503 Service Unavailable''" "''busy''"],
        where g = sampleGoproxy and cachingForever = True
          and ctype = "''text/plain; charset=utf-8''"
          and res = "\<lparr>StatusCode = 503, Status = ''503 Service Unavailable'',
                       ContentLength = [], Body = ''busy'', ReadErr = None\<rparr>"]
    by (simp add: upstreamAnswers_fields red)
qed

text \<open>
  The claim C8 as it is worded fails: an upstream that answers 503 and whose body cannot
  be read is answered 500, not 502.
\<close>

theorem C8_counterexample:
  "NewRequest truncatedUpstream (urlString truncatedUpstream sampleURL) = None \<and>
   httpDo truncatedUpstream (urlString truncatedUpstream sampleURL) =
     Responded \<lparr>StatusCode = 503, Status = ''503 Service Unavailable'',
                ContentLength = [], Body = [], ReadErr = Some ''unexpected EOF''\<rparr> \<and>
   status (fst (sumdbFetch sampleGoproxy truncatedUpstream sampleURL True
      ''text/plain; charset=utf-8'')) = 500"
  by (simp add: sumdbFetch_def truncatedUpstream_def sampleWorld_fields
      responseInternalServerError_def responseString_def emptyResponse_def)

subsection \<open>Unsupported log hosts\<close>

lemma supportNames_iff:
  "supportNames toASCII m names n = (m n \<or> (\<exists>x \<in> set names. toASCII x = Some n))"
  by (induction names arbitrary: m) (auto split: option.splits)

lemma load_supported:
  "supportedSUMDBNames (load t toASCII g) n =
     (supportedSUMDBNames g n \<or> (\<exists>x \<in> set (SupportedSUMDBNames g). toASCII x = Some n))"
  by (simp add: load_def supportNames_iff)

text \<open>
  C9, as the code has it. A \<open>sumdb/\<close> request whose remainder \<open>parseRawURL\<close> accepts
  as an http or https URL and whose host, made ASCII, is not among the supported names is
  answered 404 with \<open>max-age=60\<close>, whatever the path of the URL. A \<open>sumdb/\<close> request
  whose remainder \<open>parseRawURL\<close> rejects, or whose host cannot be made ASCII, is answered
  404 with \<open>max-age=3600\<close> before the supported names are consulted. \<open>parseRawURL\<close>
  rejects in particular a remainder that contains \<open>:/\<close> and that \<open>url.Parse\<close> reads with
  a scheme other than http and https: nothing is put before such a remainder. The
  supported names after \<open>load\<close> are those held before and the ASCII forms of
  \<open>SupportedSUMDBNames\<close>.
\<close>

theorem C9_unsupported_host:
  assumes "Method r = ''GET'' \<or> Method r = ''HEAD''"
    and "HasPrefix (URLPath r) ''/''"
    and "PathUnescape w
           (TrimLeftSlash (TrimPrefix (pathClean w (URLPath r)) (PathPrefix g))) = Some name"
    and "HasPrefix name ''sumdb/''"
  shows
    "(parseRawURL w (TrimPrefix name ''sumdb/'') = Inr sumdbURL \<and>
      ToASCII w (Host sumdbURL) = Some sumdbName \<and>
      \<not> supportedSUMDBNames g sumdbName \<longrightarrow>
        status (fst (handle g w r)) = 404 \<and> maxAge (fst (handle g w r)) = Some 60) \<and>
     (parseRawURL w (TrimPrefix name ''sumdb/'') = Inl err \<or>
      (parseRawURL w (TrimPrefix name ''sumdb/'') = Inr sumdbURL \<and>
       ToASCII w (Host sumdbURL) = None) \<longrightarrow>
        status (fst (handle g w r)) = 404 \<and> maxAge (fst (handle g w r)) = Some 3600) \<and>
     (Contains rawURL '':/'' \<and> urlParse w rawURL = Inr u \<and>
      ToLower w (Scheme u) \<noteq> ''http'' \<and> ToLower w (Scheme u) \<noteq> ''https'' \<longrightarrow>
        parseRawURL w rawURL =
          Inl (''invalid URL scheme (must be http or https): '' @ redactedURL w u)) \<and>
     (supportedSUMDBNames (load trimSpace toASCII g0) n =
        (supportedSUMDBNames g0 n \<or>
         (\<exists>x \<in> set (SupportedSUMDBNames g0). toASCII x = Some n)))"
  using assms
  by (auto simp add: handle_def serveSumdb_def parseRawURL_def responseNotFound_def
      responseString_def setResponseCacheControlHeader_def emptyResponse_def load_supported)

lemma sample_supported:
  "supportedSUMDBNames sampleGoproxy n = (n = ''sum.golang.org'')"
  by (auto simp add: sampleGoproxy_def loadOnce_def load_supported sampleWorld_fields)
     (simp_all add: New_def)

lemma sample_PathPrefix: "PathPrefix sampleGoproxy = []"
  by (simp add: sampleGoproxy_def loadOnce_def New_def load_def)

text \<open>Scenario 4 of the spec: \<open>sum.example.org\<close> is not a supported name.\<close>

theorem C9_unsupported_host_witness:
  "Method (GET ''/sumdb/sum.example.org/lookup/x'') = ''GET'' \<and>
   HasPrefix (URLPath (GET ''/sumdb/sum.example.org/lookup/x'')) ''/'' \<and>
   HasPrefix ''sumdb/sum.example.org/lookup/x'' ''sumdb/'' \<and>
   parseRawURL sampleWorld (TrimPrefix ''sumdb/sum.example.org/lookup/x'' ''sumdb/'') =
     Inr sampleURL \<and>
   ToASCII sampleWorld (Host sampleURL) = Some ''sum.example.org'' \<and>
   \<not> supportedSUMDBNames sampleGoproxy ''sum.example.org'' \<and>
   status (fst (handle sampleGoproxy sampleWorld (GET ''/sumdb/sum.example.org/lookup/x''))) =
     404 \<and>
   maxAge (fst (handle sampleGoproxy sampleWorld (GET ''/sumdb/sum.example.org/lookup/x''))) =
     Some 60"
proof -
  have h1: "Method (GET ''/sumdb/sum.example.org/lookup/x'') = ''GET'' \<or>
            Method (GET ''/sumdb/sum.example.org/lookup/x'') = ''HEAD''"
    by (simp add: GET_def)
  have h2: "HasPrefix (URLPath (GET ''/sumdb/sum.example.org/lookup/x'')) ''/''"
    by (simp add: GET_def HasPrefix_def)
  have h3: "PathUnescape sampleWorld
      (TrimLeftSlash (TrimPrefix (pathClean sampleWorld
         (URLPath (GET ''/sumdb/sum.example.org/lookup/x''))) (PathPrefix sampleGoproxy))) =
      Some ''sumdb/sum.example.org/lookup/x''"
    by (simp add: GET_def sampleWorld_fields sample_PathPrefix TrimPrefix_def HasPrefix_def
        TrimLeftSlash_def)
  have h4: "HasPrefix ''sumdb/sum.example.org/lookup/x'' ''sumdb/''"
    by (simp add: HasPrefix_def)
  have h5: "parseRawURL sampleWorld (TrimPrefix ''sumdb/sum.example.org/lookup/x'' ''sumdb/'') =
              Inr sampleURL"
    by (simp add: parseRawURL_def TrimPrefix_def HasPrefix_def ContainsAny_def IsAbs_def
        sampleWorld_fields)
       (simp add: sampleWorld_def sampleURL_def)
  have h6: "ToASCII sampleWorld (Host sampleURL) = Some ''sum.example.org''"
    by (simp add: sampleWorld_fields sampleURL_def)
  have h7: "\<not> supportedSUMDBNames sampleGoproxy ''sum.example.org''"
    by (simp add: sample_supported)
  show ?thesis
    using h1 h2 h4 h5 h6 h7
      C9_unsupported_host [OF h1 h2 h3 h4, where sumdbURL = sampleURL
        and sumdbName = "''sum.example.org''"]
    by (simp add: GET_def)
qed

text \<open>
  The claim C9 as it is worded fails. The request
  \<open>GET /sumdb/sum.example.org/lookup/a:/b\<close> names the host \<open>sum.example.org\<close>, which is
  not a supported name of a new handler. Its sub-path contains \<open>:/\<close>, so \<open>parseRawURL\<close>
  puts no \<open>https://\<close> before the remainder, \<open>url.Parse\<close> finds no scheme in it, and the
  answer is 404 with \<open>max-age=3600\<close>.
\<close>

theorem C9_counterexample:
  "ToASCII relativeReference ''sum.example.org'' = Some ''sum.example.org'' \<and>
   \<not> supportedSUMDBNames
       (snd (ServeHTTP (New []) relativeReference
          (GET ''/sumdb/sum.example.org/lookup/a:/b''))) ''sum.example.org'' \<and>
   status (fst (fst (ServeHTTP (New []) relativeReference
      (GET ''/sumdb/sum.example.org/lookup/a:/b'')))) = 404 \<and>
   maxAge (fst (fst (ServeHTTP (New []) relativeReference
      (GET ''/sumdb/sum.example.org/lookup/a:/b'')))) = Some 3600"
  by code_simp

subsection \<open>Further properties of the handler\<close>

text \<open>
  X1. A request whose method is neither GET nor HEAD is answered 405 with
  \<open>max-age=3600\<close>, and nothing else is done (lines 289-295).
\<close>

theorem X1_method_not_allowed:
  assumes "Method r \<noteq> ''GET''" and "Method r \<noteq> ''HEAD''"
  shows "status (fst (fst (ServeHTTP g w r))) = 405 \<and>
         maxAge (fst (fst (ServeHTTP g w r))) = Some 3600 \<and>
         snd (fst (ServeHTTP g w r)) = []"
  using assms
  by (simp add: ServeHTTP_def handle_def responseMethodNotAllowed_def responseString_def
      setResponseCacheControlHeader_def emptyResponse_def)

text \<open>Scenario 6 of the spec.\<close>

theorem X1_method_not_allowed_witness:
  "Method \<lparr>Method = ''POST'', URLPath = ''/anything''\<rparr> \<noteq> ''GET'' \<and>
   Method \<lparr>Method = ''POST'', URLPath = ''/anything''\<rparr> \<noteq> ''HEAD'' \<and>
   status (fst (fst (ServeHTTP (New []) sampleWorld
      \<lparr>Method = ''POST'', URLPath = ''/anything''\<rparr>))) = 405 \<and>
   maxAge (fst (fst (ServeHTTP (New []) sampleWorld
      \<lparr>Method = ''POST'', URLPath = ''/anything''\<rparr>))) = Some 3600"
proof -
  have h1: "Method \<lparr>Method = ''POST'', URLPath = ''/anything''\<rparr> \<noteq> ''GET''" by simp
  have h2: "Method \<lparr>Method = ''POST'', URLPath = ''/anything''\<rparr> \<noteq> ''HEAD''" by simp
  from h1 h2 X1_method_not_allowed [OF h1 h2, of "New []" sampleWorld]
  show ?thesis by blast
qed

text \<open>
  X2. The list of a module that is not a staging repository: when the toolchain returns
  its versions, the answer is 200 with the versions joined by newlines and
  \<open>max-age=60\<close> (lines 516-563).
\<close>

theorem X2_list_versions:
  assumes "modulePath \<notin> set stagingRepos"
    and "TempDir w = Inr goproxyRoot"
    and "modRun w ''list'' modulePath requested = Inr mr"
  shows "status (fst (resolve g w r name isLatest True modulePath nameExt requested)) = 200 \<and>
         body (fst (resolve g w r name isLatest True modulePath nameExt requested)) =
           Join (Versions mr) [CHR 0x0A] \<and>
         maxAge (fst (resolve g w r name isLatest True modulePath nameExt requested)) = Some 60"
  using assms
  by (simp add: resolve_def stagingVersion_def isStagingRepo_def stringSliceContains_iff
      responseString_def setResponseCacheControlHeader_def emptyResponse_def)

text \<open>Scenario 1 of the spec.\<close>

theorem X2_list_versions_witness:
  "''example.com/m'' \<notin> set stagingRepos \<and>
   TempDir sampleWorld = Inr ''/tmp/goproxy'' \<and>
   modRun sampleWorld ''list'' ''example.com/m'' ''latest'' = Inr sampleResult \<and>
   status (fst (resolve sampleGoproxy sampleWorld (GET ''/example.com/m/@v/list'')
      ''example.com/m/@v/latest.info'' False True ''example.com/m'' ''.info'' ''latest'')) =
     200 \<and>
   body (fst (resolve sampleGoproxy sampleWorld (GET ''/example.com/m/@v/list'')
      ''example.com/m/@v/latest.info'' False True ''example.com/m'' ''.info'' ''latest'')) =
     ''v1.0.0'' @ [CHR 0x0A] @ ''v1.1.0'' \<and>
   maxAge (fst (resolve sampleGoproxy sampleWorld (GET ''/example.com/m/@v/list'')
      ''example.com/m/@v/latest.info'' False True ''example.com/m'' ''.info'' ''latest'')) =
     Some 60"
proof -
  have h1: "''example.com/m'' \<notin> set stagingRepos"
    by (simp add: stagingRepos_def)
  have h2: "TempDir sampleWorld = Inr ''/tmp/goproxy''"
    by (simp add: sampleWorld_fields)
  have h3: "modRun sampleWorld ''list'' ''example.com/m'' ''latest'' = Inr sampleResult"
    by (simp add: sampleWorld_fields)
  from h1 h2 h3
    X2_list_versions [OF h1 h2 h3, of sampleGoproxy "GET ''/example.com/m/@v/list''"
      "''example.com/m/@v/latest.info''" False "''.info''"]
  show ?thesis by (simp add: sampleResult_def)
qed

text \<open>
  X3. Scenario 1 of the spec from the entry point: the first request to a new handler,
  \<open>GET /example.com/m/@v/list\<close>, runs the toolchain's \<open>list\<close> once, for the version
  \<open>latest\<close>, and is answered 200 with the two versions and \<open>max-age=60\<close>.
\<close>

theorem X3_scenario_list:
  "fst (ServeHTTP (New []) sampleWorld (GET ''/example.com/m/@v/list'')) =
     (\<lparr>status = 200, maxAge = Some 60, contentType = [], contentLength = [], etag = [],
       body = ''v1.0.0'' @ [CHR 0x0A] @ ''v1.1.0''\<rparr>,
      [Ran ''list'' ''example.com/m'' ''latest''])"
  by code_simp

text \<open>
  X4. A module of \<open>stagingRepos\<close> asked for at a version that starts with \<open>v0.1\<close> is
  served with \<open>max-age=60\<close> whenever \<open>semver.IsValid\<close> rejects the \<open>kubernetes-1.\<close>
  substitute, whatever it says of the requested version (lines 495-499 and 564-609).
\<close>

theorem X4_staging_max_age:
  assumes "modulePath \<in> set stagingRepos"
    and "HasPrefix requested ''v0.1''"
    and "\<not> semverIsValid w (''kubernetes-1.'' @ drop 3 requested)"
    and "status (fst (resolve g w r name isLatest False modulePath nameExt requested)) = 200"
  shows "maxAge (fst (resolve g w r name isLatest False modulePath nameExt requested)) =
           Some 60"
proof -
  from assms(1) have st: "isStagingRepo modulePath"
    by (simp add: isStagingRepo_def stringSliceContains_iff)
  from stagingVersion_v01 [OF st assms(2)] assms(3)
  have "\<not> semverIsValid w (stagingVersion modulePath requested)" by simp
  with resolve_maxAge [of False g w r name isLatest modulePath nameExt requested] assms(4)
  show ?thesis by simp
qed

text \<open>\<open>k8s.io/api\<close> at \<open>v0.17.0\<close>, a valid semver version, with verification off.\<close>

theorem X4_staging_max_age_witness:
  "''k8s.io/api'' \<in> set stagingRepos \<and>
   HasPrefix ''v0.17.0'' ''v0.1'' \<and>
   semverIsValid sampleWorld ''v0.17.0'' \<and>
   \<not> semverIsValid sampleWorld (''kubernetes-1.'' @ drop 3 ''v0.17.0'') \<and>
   status (fst (resolve unverifiedGoproxy sampleWorld (GET ''/k8s.io/api/@v/v0.17.0.info'')
      ''k8s.io/api/@v/v0.17.0.info'' False False ''k8s.io/api'' ''.info'' ''v0.17.0'')) = 200 \<and>
   maxAge (fst (resolve unverifiedGoproxy sampleWorld (GET ''/k8s.io/api/@v/v0.17.0.info'')
      ''k8s.io/api/@v/v0.17.0.info'' False False ''k8s.io/api'' ''.info'' ''v0.17.0'')) =
     Some 60"
proof -
  have h1: "''k8s.io/api'' \<in> set stagingRepos"
    by (simp add: stagingRepos_def)
  have h2: "HasPrefix ''v0.17.0'' ''v0.1''"
    by (simp add: HasPrefix_def)
  have h3: "\<not> semverIsValid sampleWorld (''kubernetes-1.'' @ drop 3 ''v0.17.0'')"
    by (simp add: sampleWorld_fields HasPrefix_def)
  have h3': "semverIsValid sampleWorld ''v0.17.0''"
    by (simp add: sampleWorld_fields HasPrefix_def)
  have sv: "stagingVersion ''k8s.io/api'' ''v0.17.0'' = ''kubernetes-1.17.0''"
    using stagingVersion_v01 [of "''k8s.io/api''" "''v0.17.0''"] h1 h2
    by (simp add: isStagingRepo_def stringSliceContains_iff)
  have h4: "status (fst (resolve unverifiedGoproxy sampleWorld
      (GET ''/k8s.io/api/@v/v0.17.0.info'')
      ''k8s.io/api/@v/v0.17.0.info'' False False ''k8s.io/api'' ''.info'' ''v0.17.0'')) = 200"
    by (simp add: resolve_def sv sampleWorld_fields HasPrefix_def after_def
        fetch_unverified_sample serveCache_status)
  from h1 h2 h3 h3' h4 X4_staging_max_age [OF h1 h2 h3 h4]
  show ?thesis by blast
qed

end
